theory Spec2Isabelle
  imports Main "HOL-Library.Sublist" "HOL-Library.Word"
begin

section \<open>Strings\<close>

text \<open>
  Go strings are byte sequences; they are modelled as \<open>string\<close> (a list of 8-bit
  characters). The helpers below are the functions of Go's \<open>strings\<close> package that the
  builtin provider calls, restricted to the way it calls them.
\<close>

definition newline :: char where
  "newline = CHR 0x0A"

definition tab :: char where
  "tab = CHR 0x09"

definition backslash :: char where
  "backslash = CHR 0x5C"

definition dquote :: char where
  "dquote = CHR 0x22"

definition slash :: char where
  "slash = CHR ''/''"

text \<open>\<open>strings.HasPrefix(s, p)\<close>.\<close>

definition hasPrefix :: "string \<Rightarrow> string \<Rightarrow> bool" where
  "hasPrefix s p = (take (length p) s = p)"

text \<open>\<open>strings.Join(xs, sep)\<close>.\<close>

fun join :: "string \<Rightarrow> string list \<Rightarrow> string" where
  "join sep [] = []"
| "join sep [x] = x"
| "join sep (x # y # ys) = x @ sep @ join sep (y # ys)"

text \<open>\<open>strings.Split(s, sep)\<close> for a one-byte separator: never the empty list.\<close>

fun splitOn :: "char \<Rightarrow> string \<Rightarrow> string list" where
  "splitOn c [] = [[]]"
| "splitOn c (x # xs) =
     (if x = c then [] # splitOn c xs
      else (case splitOn c xs of
              [] \<Rightarrow> [[x]]
            | w # ws \<Rightarrow> (x # w) # ws))"

text \<open>\<open>strings.Trim(s, " ")\<close>: leading and trailing spaces removed, nothing else.\<close>

definition trimSpaces :: "string \<Rightarrow> string" where
  "trimSpaces s =
     rev (dropWhile (\<lambda>c. c = CHR '' '') (rev (dropWhile (\<lambda>c. c = CHR '' '') s)))"

text \<open>\<open>strings.ReplaceAll(s, "\t", "")\<close>.\<close>

definition removeTabs :: "string \<Rightarrow> string" where
  "removeTabs s = filter (\<lambda>c. c \<noteq> tab) s"

text \<open>
  \<open>strings.TrimSpace\<close> on ASCII text: the six ASCII white-space bytes are trimmed at both
  ends. (Go also trims the non-ASCII code points of Unicode's White_Space property.)
\<close>

definition isSpace :: "char \<Rightarrow> bool" where
  "isSpace c = (c \<in> set [CHR 0x09, CHR 0x0A, CHR 0x0B, CHR 0x0C, CHR 0x0D, CHR 0x20])"

definition TrimSpace :: "string \<Rightarrow> string" where
  "TrimSpace s = rev (dropWhile isSpace (rev (dropWhile isSpace s)))"

text \<open>\<open>strings.Replace(s, old, new, 1)\<close> for a non-empty \<open>old\<close>.\<close>

fun replaceFirst :: "string \<Rightarrow> string \<Rightarrow> string \<Rightarrow> string" where
  "replaceFirst old new [] = []"
| "replaceFirst old new (c # s) =
     (if hasPrefix (c # s) old then new @ drop (length old) (c # s)
      else c # replaceFirst old new s)"

text \<open>\<open>regexp.QuoteMeta\<close>: a backslash before each regular-expression metacharacter.\<close>

definition specialBytes :: string where
  "specialBytes = backslash # ''.+*?()|[]{}^$''"

definition QuoteMeta :: "string \<Rightarrow> string" where
  "QuoteMeta s = concat (map (\<lambda>c. if c \<in> set specialBytes then [backslash, c] else [c]) s)"


section \<open>Paths\<close>

text \<open>
  The functions of Go's \<open>path/filepath\<close> the provider calls, for Unix paths (separator
  \<open>/\<close>, no volume names), following the documented rules of \<open>filepath.Clean\<close>: empty
  and \<open>.\<close> elements are dropped, an inner \<open>..\<close> removes the element before it, a
  \<open>..\<close> at the start of a rooted path is dropped, and the empty result is \<open>.\<close>.
\<close>

definition IsAbs :: "string \<Rightarrow> bool" where
  "IsAbs path = hasPrefix path [slash]"

fun cleanElems :: "bool \<Rightarrow> string list \<Rightarrow> string list \<Rightarrow> string list" where
  "cleanElems rooted out [] = out"
| "cleanElems rooted out (e # es) =
     (if e = [] \<or> e = ''.'' then cleanElems rooted out es
      else if e = ''..'' then
        (if out \<noteq> [] \<and> last out \<noteq> ''..'' then cleanElems rooted (butlast out) es
         else if rooted then cleanElems rooted out es
         else cleanElems rooted (out @ [e]) es)
      else cleanElems rooted (out @ [e]) es)"

definition Clean :: "string \<Rightarrow> string" where
  "Clean path =
     (if path = [] then ''.''
      else
        (let rooted = IsAbs path;
             out = cleanElems rooted [] (splitOn slash path)
         in if rooted then slash # join [slash] out
            else if out = [] then ''.''
            else join [slash] out))"

text \<open>\<open>filepath.Join\<close>: leading empty elements are skipped, the rest is joined and cleaned.\<close>

definition Join :: "string list \<Rightarrow> string" where
  "Join elem =
     (case dropWhile (\<lambda>e. e = []) elem of
        [] \<Rightarrow> []
      | es \<Rightarrow> Clean (join [slash] es))"

text \<open>\<open>filepath.Dir\<close>: everything up to the last separator, cleaned.\<close>

definition Dir :: "string \<Rightarrow> string" where
  "Dir path = Clean (rev (dropWhile (\<lambda>c. c \<noteq> slash) (rev path)))"

text \<open>\<open>filepath.Base\<close>: the last element, after trailing separators are dropped.\<close>

definition Base :: "string \<Rightarrow> string" where
  "Base path =
     (if path = [] then ''.''
      else
        (let p = rev (dropWhile (\<lambda>c. c = slash) (rev path))
         in if p = [] then [slash]
            else rev (takeWhile (\<lambda>c. c \<noteq> slash) (rev p))))"


section \<open>Errors\<close>

text \<open>
  One constructor for each error the provider builds with \<open>fmt.Errorf\<close>; \<open>LibError\<close>
  stands for an error value handed up by a library or the operating system.
\<close>

datatype error =
    LibError string
  | QueryInfoError error
  | FilePatternNotString string
  | FindFilesError string error
  | RegexPatternNotString string
  | RegexCompileError string error
  | XPathParseError string "error option"
  | FindXMLFilesError error
  | PublicIDRegexError string error
  | PublicIDQueryError string "error option"
  | JSONQueryNotString string
  | UnknownCapability string
  | EmptyContent
  | PreviousLocationError
  | LocationNotFound string "error option"
  | OpenFileError string error
  | ParseXMLError string error
  | RecoveredPanic string


section \<open>The regular-expression selector (path\_regex.go)\<close>

text \<open>
  The two regular-expression engines are libraries. A compiled expression is represented
  by what its methods return: \<open>goRegexp\<close> for Go's \<open>regexp\<close> (the deterministic engine)
  and \<open>regexp2\<close> for \<open>dlclark/regexp2\<close> (the backtracking engine with lookaround). For
  \<open>regexp2\<close>, \<open>r2_matches\<close> gives the matches that \<open>FindStringMatch\<close> and the following
  \<open>FindNextMatch\<close> calls return on a text, in order, together with the error that ends
  the sequence, if any.
\<close>

record rmatch =
  Index :: nat
  String :: string

record goRegexp =
  go_MatchString :: "string \<Rightarrow> bool"
  go_FindStringSubmatch :: "string \<Rightarrow> string list"
  go_FindString :: "string \<Rightarrow> string"
  go_FindStringIndex :: "string \<Rightarrow> (nat \<times> nat) option"

record regexp2 =
  r2_MatchString :: "string \<Rightarrow> bool \<times> error option"
  r2_matches :: "string \<Rightarrow> rmatch list \<times> error option"

record regexSelector =
  goRegex :: "goRegexp option"
  lookRegex :: "regexp2 option"

definition LOOK_SYNTAX :: "string list" where
  "LOOK_SYNTAX = [''(?='', ''(?!'', ''(?<='', ''(?<!'']"

text \<open>The result of a library compile call \<open>(regex, err)\<close>: the pointer is nil on error.\<close>

definition compiled :: "error + 'r \<Rightarrow> 'r option" where
  "compiled r = (case r of Inl _ \<Rightarrow> None | Inr x \<Rightarrow> Some x)"

definition failure :: "error + 'r \<Rightarrow> error option" where
  "failure r = (case r of Inl e \<Rightarrow> Some e | Inr _ \<Rightarrow> None)"

text \<open>
  \<open>compileRegex\<close>: \<open>slices.Contains(LOOK_SYNTAX, pattern)\<close> asks whether the pattern is an
  element of the list. The two compilers are parameters.
\<close>

definition compileRegex ::
  "(string \<Rightarrow> error + goRegexp) \<Rightarrow> (string \<Rightarrow> error + regexp2) \<Rightarrow> string
     \<Rightarrow> regexSelector \<times> error option" where
  "compileRegex regexpCompile regexp2Compile pattern =
     (if pattern \<in> set LOOK_SYNTAX then
        (let r = regexp2Compile pattern
         in (\<lparr>goRegex = None, lookRegex = compiled r\<rparr>, failure r))
      else
        (let r = regexpCompile pattern
         in (\<lparr>goRegex = compiled r, lookRegex = None\<rparr>, failure r)))"

text \<open>The engine a selector was built for: the compiler that \<open>compileRegex\<close> consulted.\<close>

datatype engine = Deterministic | Backtracking

definition selectedEngine :: "string \<Rightarrow> engine" where
  "selectedEngine pattern =
     (if pattern \<in> set LOOK_SYNTAX then Backtracking else Deterministic)"

text \<open>The methods of the selector. A selector with both fields nil makes Go panic.\<close>

datatype 'a outcome = Panic | Returns 'a

definition MatchString :: "regexSelector \<Rightarrow> string \<Rightarrow> (bool \<times> error option) outcome" where
  "MatchString r s =
     (case goRegex r of
        Some g \<Rightarrow> Returns (go_MatchString g s, None)
      | None \<Rightarrow>
          (case lookRegex r of
             None \<Rightarrow> Panic
           | Some l \<Rightarrow> Returns (r2_MatchString l s)))"

definition FindStringSubmatch :: "regexSelector \<Rightarrow> string \<Rightarrow> string list" where
  "FindStringSubmatch r s =
     (case goRegex r of
        Some g \<Rightarrow> go_FindStringSubmatch g s
      | None \<Rightarrow> [])"

definition FindStringMatch ::
  "regexSelector \<Rightarrow> string \<Rightarrow> (string \<times> nat \<times> error option) outcome" where
  "FindStringMatch r s =
     (case goRegex r of
        Some g \<Rightarrow>
          (let matchString = go_FindString g s
           in case go_FindStringIndex g s of
                None \<Rightarrow> Returns ([], 0, None)
              | Some (start, _) \<Rightarrow> Returns (matchString, start, None))
      | None \<Rightarrow>
          (case lookRegex r of
             None \<Rightarrow> Panic
           | Some l \<Rightarrow>
               (case r2_matches l s of
                  ([], err) \<Rightarrow> Returns ([], 0, err)
                | (m # _, _) \<Rightarrow> Returns (String m, Index m, None))))"

text \<open>The prefix test the specification describes, to compare with the code's test.\<close>

definition startsWithLookaround :: "string \<Rightarrow> bool" where
  "startsWithLookaround pattern = list_ex (hasPrefix pattern) LOOK_SYNTAX"


section \<open>The service client and its surroundings\<close>

text \<open>
  \<open>builtinServiceClient\<close>: the analysis root (\<open>config.Location\<close>), the keys of the
  configured tag map and the included-path scopes. The location cache is mutable and
  lives in the \<open>state\<close> below.
\<close>

record builtinServiceClient =
  Location :: string
  tags :: "string list"
  includedPaths :: "string list"

record position =
  Line :: int
  Character :: int

text \<open>
  \<open>provider.Location\<close>. Its line numbers are \<open>float64\<close> values that the code only ever
  obtains by converting an integer, so they are modelled as integers.
\<close>

record location =
  StartPosition :: position
  EndPosition :: position

definition zeroPosition :: position where
  "zeroPosition = \<lparr>Line = 0, Character = 0\<rparr>"

definition lineLocation :: "int \<Rightarrow> location" where
  "lineLocation n =
     \<lparr>StartPosition = \<lparr>Line = n, Character = 0\<rparr>,
      EndPosition = \<lparr>Line = n, Character = 0\<rparr>\<rparr>"

text \<open>
  The mutable part: \<open>locationCache\<close>, and a log of the calls made to the multi-line
  search (\<open>provider.MultilineGrep\<close>), which is how re-scanning a file is observed.
\<close>

record state =
  locationCache :: "string \<rightharpoonup> int"
  grepCalls :: "(nat \<times> string \<times> string) list"

record entry =
  epath :: string
  ename :: string
  eregular :: bool
  eerr :: "error option"

datatype xmlDoc = XmlDoc string

datatype jsonDoc = JsonDoc string

record xpathExpr =
  xp_expr :: string
  xp_namespaces :: "(string \<times> string) list"

record xmlNode =
  xml_OutputXML :: string
  xml_InnerText :: string
  xml_Data :: string
  xml_Attr :: "(string \<times> string) list"

record jsonNode =
  json_InnerText :: string
  json_Data :: string

text \<open>
  \<open>builtinCondition\<close>, as \<open>yaml.Unmarshal\<close> fills it: the fields \<open>Evaluate\<close> reads, one
  group for each capability, and the provider context (\<open>GetScopedFilepaths\<close> returns
  \<open>(ok, paths)\<close>: an optional list; \<open>Tags\<close>: the keys of the tag map).
\<close>

record builtinCondition =
  file_Pattern :: string
  filecontent_Pattern :: string
  filecontent_FilePattern :: string
  xml_XPath :: string
  xml_Namespaces :: "(string \<times> string) list"
  xml_Filepaths :: "string list"
  publicid_Regex :: string
  publicid_Namespaces :: "(string \<times> string) list"
  json_XPath :: string
  json_Filepaths :: "string list"
  HasTags :: "string list"
  ctx_RuleID :: string
  ctx_Tags :: "string list"
  ctx_ScopedFilepaths :: "string list option"

text \<open>
  The response. A URI records how it was built: \<open>uri.File(path)\<close> or the conversion
  \<open>uri.URI(s)\<close> of a string. \<open>Variables\<close> and \<open>TemplateContext\<close> are Go maps with string
  keys, written as association lists.
\<close>

datatype uri = uri_File string | uri_URI string

datatype var = VString string | VStrings "string list"

record IncidentContext =
  FileURI :: uri
  LineNumber :: "int option"
  Variables :: "(string \<times> var) list"
  CodeLocation :: "location option"

record ProviderEvaluateResponse =
  Matched :: bool
  Incidents :: "IncidentContext list"
  TemplateContext :: "(string \<times> string list) list"

definition emptyResponse :: ProviderEvaluateResponse where
  "emptyResponse = \<lparr>Matched = False, Incidents = [], TemplateContext = []\<rparr>"

text \<open>
  Everything outside the two source files: the operating system, the libraries and the
  other packages of the repository. Each field is what the call returns.
  \<^item> \<open>getwd\<close>: \<open>os.Getwd\<close>; \<open>isDir\<close>: \<open>os.Stat\<close> succeeds and reports a directory;
  \<^item> \<open>walk\<close>: the calls \<open>filepath.Walk\<close> and \<open>filepath.WalkDir\<close> make to their callback
    on a root, in order, for as long as the callback returns nil;
  \<^item> \<open>openLines\<close>: \<open>os.Open\<close>, and for an opened file the lines a \<open>bufio.Scanner\<close>
    yields from it and the error \<open>scanner.Err()\<close> holds when \<open>Scan\<close> stops;
  \<^item> \<open>osOpen\<close>, \<open>osReadFile\<close>: the bytes of a file;
  \<^item> the remaining fields are library calls named after the functions they stand for.
\<close>

record world =
  yamlUnmarshal :: "string \<Rightarrow> error + builtinCondition"
  getwd :: "error + string"
  isDir :: "string \<Rightarrow> bool"
  walk :: "string \<Rightarrow> entry list"
  openLines :: "string \<Rightarrow> error + string list \<times> error option"
  osOpen :: "string \<Rightarrow> error + string"
  osReadFile :: "string \<Rightarrow> error + string"
  regexpCompile :: "string \<Rightarrow> error + goRegexp"
  regexp2Compile :: "string \<Rightarrow> error + regexp2"
  filepathMatch :: "string \<Rightarrow> string \<Rightarrow> error + bool"
  FilterFilePattern :: "string \<Rightarrow> string \<Rightarrow> error + bool"
  GetFiles :: "string \<Rightarrow> string list \<Rightarrow> string list \<Rightarrow> error + string list"
  MultilineGrep :: "nat \<Rightarrow> string \<Rightarrow> string \<Rightarrow> int \<times> error option"
  xpathCompileWithNS :: "string \<Rightarrow> (string \<times> string) list \<Rightarrow> xpathExpr option \<times> error option"
  xmlParse :: "bool \<Rightarrow> string \<Rightarrow> error + xmlDoc"
  xmlQuerySelectorAll :: "xmlDoc \<Rightarrow> xpathExpr \<Rightarrow> string + xmlNode list"
  jsonParse :: "string \<Rightarrow> error + jsonDoc"
  jsonQueryAll :: "jsonDoc \<Rightarrow> string \<Rightarrow> error + jsonNode list"

text \<open>\<open>filepath.Abs\<close>: an absolute path is cleaned, a relative one is joined to the working
  directory, and the call fails when the working directory cannot be read.\<close>

definition Abs :: "world \<Rightarrow> string \<Rightarrow> error + string" where
  "Abs w path =
     (if IsAbs path then Inr (Clean path)
      else (case getwd w of
              Inl err \<Rightarrow> Inl err
            | Inr wd \<Rightarrow> Inr (Join [wd, path])))"


section \<open>Inclusion filter\<close>

definition getSegments :: "string \<Rightarrow> string list" where
  "getSegments path = filter (\<lambda>segment. segment \<noteq> []) (splitOn slash (Clean path))"

text \<open>One iteration of the loop over \<open>includedPaths\<close>: does this scope include the path?\<close>

definition scopeIncludes :: "world \<Rightarrow> builtinServiceClient \<Rightarrow> string \<Rightarrow> string \<Rightarrow> bool" where
  "scopeIncludes w b absolutePath path =
     (let joined = Join [Location b, path];
          includedPath = (case Abs w joined of Inr absPath \<Rightarrow> absPath | Inl _ \<Rightarrow> joined);
          pathSegments =
            (if isDir w includedPath then getSegments (Dir absolutePath)
             else getSegments absolutePath);
          includedPathSegments = getSegments includedPath
      in length pathSegments \<ge> length includedPathSegments \<and>
         hasPrefix (join [] pathSegments) (join [] includedPathSegments))"

definition isFileIncluded :: "world \<Rightarrow> builtinServiceClient \<Rightarrow> string \<Rightarrow> bool" where
  "isFileIncluded w b absolutePath =
     (if includedPaths b = [] then True
      else list_ex (scopeIncludes w b absolutePath) (includedPaths b))"

text \<open>
  The comparison the specification describes: the scope's segments are a prefix, segment
  by segment, of the candidate's segments (of its parent directory's, for a directory
  scope).
\<close>

definition scopeIncludesSegmentwise ::
  "world \<Rightarrow> builtinServiceClient \<Rightarrow> string \<Rightarrow> string \<Rightarrow> bool" where
  "scopeIncludesSegmentwise w b absolutePath path =
     (let joined = Join [Location b, path];
          includedPath = (case Abs w joined of Inr absPath \<Rightarrow> absPath | Inl _ \<Rightarrow> joined);
          pathSegments =
            (if isDir w includedPath then getSegments (Dir absolutePath)
             else getSegments absolutePath)
      in prefix (getSegments includedPath) pathSegments)"


section \<open>Location resolver\<close>

text \<open>The lines of the fuzzy pattern: at most five, trimmed and escaped, then one empty
  line dropped at each end.\<close>

definition patternLines :: "string list \<Rightarrow> string list" where
  "patternLines parts0 =
     (let parts = (if length parts0 > 5 then take 5 parts0 else parts0);
          lines0 = map (\<lambda>part. QuoteMeta (removeTabs (trimSpaces part))) parts;
          lines1 = (if length lines0 > 0 \<and> hd lines0 = [] then tl lines0 else lines0);
          lines2 = (if length lines1 > 0 \<and> last lines1 = [] then butlast lines1 else lines1)
      in lines2)"

definition fuzzyPattern :: "string list \<Rightarrow> string" where
  "fuzzyPattern lines = ''.*?'' @ join ''.*?'' lines"

definition cacheKey :: "string \<Rightarrow> string \<Rightarrow> string" where
  "cacheKey path pattern = path @ ''-'' @ pattern"

definition getLocation ::
  "world \<Rightarrow> state \<Rightarrow> string \<Rightarrow> string \<Rightarrow> (error + location) \<times> state" where
  "getLocation w st path content =
     (let parts = splitOn newline content in
      if length parts < 1 then (Inl EmptyContent, st)
      else
        (let lines = patternLines parts in
         if length lines < 1 \<or> join [] lines = [] then (Inl EmptyContent, st)
         else
           (let pattern = fuzzyPattern lines;
                key = cacheKey path pattern
            in case locationCache st key of
                 Some val \<Rightarrow>
                   (if val = - 1 then (Inl PreviousLocationError, st)
                    else (Inr (lineLocation val), st))
               | None \<Rightarrow>
                   (let (lineNumber, err) = MultilineGrep w (length lines) path pattern;
                        scanned = grepCalls st @ [(length lines, path, pattern)]
                    in if err \<noteq> None \<or> lineNumber = - 1 then
                         (Inl (LocationNotFound path err),
                          st\<lparr>locationCache := (locationCache st)(key \<mapsto> - 1),
                             grepCalls := scanned\<rparr>)
                       else
                         (Inr (lineLocation lineNumber),
                          st\<lparr>locationCache := (locationCache st)(key \<mapsto> lineNumber),
                             grepCalls := scanned\<rparr>)))))"

text \<open>The key a call looks up, when the content is not empty.\<close>

definition locationKey :: "string \<Rightarrow> string \<Rightarrow> string option" where
  "locationKey path content =
     (let lines = patternLines (splitOn newline content) in
      if length lines < 1 \<or> join [] lines = [] then None
      else Some (cacheKey path (fuzzyPattern lines)))"


section \<open>The bounded parallel content scan\<close>

record walkResult =
  wr_URI :: string
  wr_Line :: "32 word"
  wr_Character :: "32 word"
  wr_match :: string

text \<open>The inner loop of \<open>processFile\<close>: one result for each match of a line; the path is
  made absolute once per match, and that can fail.\<close>

fun matchResults ::
  "world \<Rightarrow> string \<Rightarrow> nat \<Rightarrow> rmatch list \<Rightarrow> error option \<Rightarrow> walkResult list
     \<Rightarrow> error + walkResult list" where
  "matchResults w path lineNumber [] err r =
     (case err of Some e \<Rightarrow> Inl e | None \<Rightarrow> Inr r)"
| "matchResults w path lineNumber (m # ms) err r =
     (case Abs w path of
        Inl e \<Rightarrow> Inl e
      | Inr absPath \<Rightarrow>
          matchResults w path lineNumber ms err
            (r @ [\<lparr>wr_URI = ''file:///'' @ absPath,
                   wr_Line = of_nat lineNumber,
                   wr_Character = of_nat (Index m),
                   wr_match = String m\<rparr>]))"

fun scanLines ::
  "world \<Rightarrow> regexp2 \<Rightarrow> string \<Rightarrow> nat \<Rightarrow> string list \<Rightarrow> walkResult list
     \<Rightarrow> error + walkResult list" where
  "scanLines w regex path lineNumber [] r = Inr r"
| "scanLines w regex path lineNumber (line # rest) r =
     (case r2_matches regex line of
        (ms, err) \<Rightarrow>
          (case matchResults w path lineNumber ms err r of
             Inl e \<Rightarrow> Inl e
           | Inr r' \<Rightarrow> scanLines w regex path (lineNumber + 1) rest r'))"

text \<open>\<open>processFile\<close> scans the lines the scanner yields; it never reads \<open>scanner.Err()\<close>.\<close>

definition processFile :: "world \<Rightarrow> string \<Rightarrow> regexp2 \<Rightarrow> error + walkResult list" where
  "processFile w path regex =
     (case openLines w path of
        Inl err \<Rightarrow> Inl err
      | Inr (lines, _) \<Rightarrow> scanLines w regex path 1 lines [])"

text \<open>
  \<open>parallelWalk\<close> runs the walk on the calling goroutine and one goroutine for each
  regular file, inside an \<open>errgroup.Group\<close> with \<open>SetLimit(256)\<close>. Its executions are the
  interleavings of two kinds of event:
  \<^item> \<open>Visit\<close>: the walk calls its callback on the next entry. An entry with an error ends
    the walk; a regular file is handed to \<open>eg.Go\<close>, which blocks while the group already
    runs as many goroutines as its limit; anything else is passed over.
  \<^item> \<open>Finish i\<close>: the \<open>i\<close>-th running goroutine returns. A failure is kept by the group
    only if it is the first (\<open>errgroup\<close> records one error, once); a success appends the
    file's results under the mutex.
  The state holds the entries still to visit, the running goroutines (each has at most
  its own file open), the group's error, the shared result slice, the error the walk
  returned, and a log of the paths handed to \<open>eg.Go\<close>.
\<close>

record walkState =
  pending :: "entry list"
  running :: "string list"
  groupErr :: "error option"
  positions :: "walkResult list"
  walkErr :: "error option"
  scheduled :: "string list"

datatype event = Visit | Finish nat

definition limit :: nat where
  "limit = 256"

definition initial :: "entry list \<Rightarrow> walkState" where
  "initial es =
     \<lparr>pending = es, running = [], groupErr = None, positions = [], walkErr = None,
      scheduled = []\<rparr>"

fun step :: "world \<Rightarrow> regexp2 \<Rightarrow> event \<Rightarrow> walkState \<Rightarrow> walkState option" where
  "step w regex Visit s =
     (if walkErr s \<noteq> None then None
      else
        (case pending s of
           [] \<Rightarrow> None
         | e # es \<Rightarrow>
             (case eerr e of
                Some err \<Rightarrow> Some (s\<lparr>pending := [], walkErr := Some err\<rparr>)
              | None \<Rightarrow>
                  if eregular e then
                    (if length (running s) < limit then
                       Some (s\<lparr>pending := es,
                               running := running s @ [epath e],
                               scheduled := scheduled s @ [epath e]\<rparr>)
                     else None)
                  else Some (s\<lparr>pending := es\<rparr>))))"
| "step w regex (Finish i) s =
     (if i < length (running s) then
        (let rest = take i (running s) @ drop (Suc i) (running s)
         in case processFile w (running s ! i) regex of
              Inl err \<Rightarrow>
                Some (s\<lparr>running := rest,
                        groupErr := (case groupErr s of None \<Rightarrow> Some err | Some e \<Rightarrow> Some e)\<rparr>)
            | Inr pos \<Rightarrow>
                Some (s\<lparr>running := rest, positions := positions s @ pos\<rparr>))
      else None)"

text \<open>An event that cannot happen in a state (a blocked \<open>eg.Go\<close>, a goroutine that does
  not exist) leaves the state as it is.\<close>

definition fire :: "world \<Rightarrow> regexp2 \<Rightarrow> walkState \<Rightarrow> event \<Rightarrow> walkState" where
  "fire w regex s ev = (case step w regex ev s of None \<Rightarrow> s | Some s' \<Rightarrow> s')"

definition exec :: "world \<Rightarrow> regexp2 \<Rightarrow> event list \<Rightarrow> walkState \<Rightarrow> walkState" where
  "exec w regex sched s = foldl (fire w regex) s sched"

text \<open>
  Whatever interleaving a schedule describes, the execution goes on to its end: the
  running goroutines return, and the walk visits what is left, one file at a time.
\<close>

definition complete :: "world \<Rightarrow> regexp2 \<Rightarrow> walkState \<Rightarrow> walkState" where
  "complete w regex s =
     exec w regex
       (replicate (length (running s)) (Finish 0) @
        concat (replicate (length (pending s)) [Visit, Finish 0])) s"

text \<open>What \<open>parallelWalk\<close> returns: the walk's error at once, else what \<open>eg.Wait\<close> gives.\<close>

definition outcome :: "walkState \<Rightarrow> error + walkResult list" where
  "outcome s =
     (case walkErr s of
        Some err \<Rightarrow> Inl err
      | None \<Rightarrow>
          (case groupErr s of
             Some err \<Rightarrow> Inl err
           | None \<Rightarrow> Inr (positions s)))"

definition finalState :: "world \<Rightarrow> string \<Rightarrow> regexp2 \<Rightarrow> event list \<Rightarrow> walkState" where
  "finalState w location regex sched =
     complete w regex (exec w regex sched (initial (walk w location)))"

definition parallelWalk ::
  "world \<Rightarrow> string \<Rightarrow> regexp2 \<Rightarrow> event list \<Rightarrow> error + walkResult list" where
  "parallelWalk w location regex sched = outcome (finalState w location regex sched)"

text \<open>The paths of the regular files of a walk, in the order the walk meets them.\<close>

definition regularPaths :: "entry list \<Rightarrow> string list" where
  "regularPaths es = map epath (filter eregular es)"

text \<open>
  What holds of every state of a walk over \<open>es\<close> that met no walk error: the files handed
  to \<open>eg.Go\<close> so far and the regular files still to visit make up the regular files of
  \<open>es\<close>; a scheduled file whose scan fails is still running or has left an error in the
  group; the group's error is the failure of a scheduled file.
\<close>

definition walkInv :: "world \<Rightarrow> regexp2 \<Rightarrow> entry list \<Rightarrow> walkState \<Rightarrow> bool" where
  "walkInv w regex es s =
     (walkErr s = None \<and>
      (\<forall>e \<in> set (pending s). eerr e = None) \<and>
      scheduled s @ regularPaths (pending s) = regularPaths es \<and>
      (\<forall>p \<in> set (scheduled s).
          p \<in> set (running s) \<or>
          (\<forall>err. processFile w p regex = Inl err \<longrightarrow> groupErr s \<noteq> None)) \<and>
      (\<forall>err. groupErr s = Some err \<longrightarrow>
          (\<exists>p \<in> set (scheduled s). processFile w p regex = Inl err)) \<and>
      set (running s) \<subseteq> set (scheduled s))"


section \<open>Evaluate\<close>

definition absOrSelf :: "world \<Rightarrow> string \<Rightarrow> string" where
  "absOrSelf w p = (case Abs w p of Inr absPath \<Rightarrow> absPath | Inl _ \<Rightarrow> p)"

subsection \<open>file\<close>

text \<open>The pattern as a regular expression when it compiles, as a glob otherwise.\<close>

definition matchesPattern :: "world \<Rightarrow> string \<Rightarrow> string \<Rightarrow> error + bool" where
  "matchesPattern w pattern name =
     (case regexpCompile w pattern of
        Inr regex \<Rightarrow> Inr (go_MatchString regex name)
      | Inl _ \<Rightarrow> filepathMatch w pattern name)"

text \<open>The scoped branch: each path of the list is tested whole; a glob error skips it.\<close>

definition scopedMatches :: "world \<Rightarrow> string \<Rightarrow> string list \<Rightarrow> string list" where
  "scopedMatches w pattern paths =
     filter (\<lambda>path. case matchesPattern w pattern path of
                      Inl _ \<Rightarrow> False
                    | Inr matched \<Rightarrow> matched) paths"

text \<open>The callback of \<open>filepath.WalkDir\<close> in \<open>findFilesMatchingPattern\<close>: the entry's name
  is tested, its path is kept; an error ends the walk.\<close>

fun walkDirMatches ::
  "world \<Rightarrow> string \<Rightarrow> entry list \<Rightarrow> string list \<Rightarrow> string list \<times> error option" where
  "walkDirMatches w pattern [] matches = (matches, None)"
| "walkDirMatches w pattern (d # ds) matches =
     (case eerr d of
        Some err \<Rightarrow> (matches, Some err)
      | None \<Rightarrow>
          (case matchesPattern w pattern (ename d) of
             Inl err \<Rightarrow> (matches, Some err)
           | Inr matched \<Rightarrow>
               walkDirMatches w pattern ds
                 (if matched then matches @ [epath d] else matches)))"

definition findFilesMatchingPattern ::
  "world \<Rightarrow> string \<Rightarrow> string \<Rightarrow> string list \<times> error option" where
  "findFilesMatchingPattern w root pattern = walkDirMatches w pattern (walk w root) []"

definition plainIncident :: "string \<Rightarrow> IncidentContext" where
  "plainIncident absPath =
     \<lparr>FileURI = uri_File absPath, LineNumber = None, Variables = [], CodeLocation = None\<rparr>"

definition fileIncidents ::
  "world \<Rightarrow> builtinServiceClient \<Rightarrow> string list \<Rightarrow> IncidentContext list" where
  "fileIncidents w b matchingFiles =
     concat (map (\<lambda>match.
       (let absPath = (if IsAbs match then match else absOrSelf w match)
        in if isFileIncluded w b absPath then [plainIncident absPath] else []))
       matchingFiles)"

definition evalFile ::
  "world \<Rightarrow> builtinServiceClient \<Rightarrow> builtinCondition \<Rightarrow> string
     \<Rightarrow> ProviderEvaluateResponse \<times> error option" where
  "evalFile w b cond conditionInfo =
     (if file_Pattern cond = [] then
        (emptyResponse, Some (FilePatternNotString conditionInfo))
      else
        (case (case ctx_ScopedFilepaths cond of
                 Some paths \<Rightarrow> (scopedMatches w (file_Pattern cond) paths, None)
               | None \<Rightarrow> findFilesMatchingPattern w (Location b) (file_Pattern cond)) of
           (_, Some err) \<Rightarrow> (emptyResponse, Some (FindFilesError (file_Pattern cond) err))
         | (matchingFiles, None) \<Rightarrow>
             (let incidents = fileIncidents w b matchingFiles
              in (\<lparr>Matched = (length incidents > 0),
                   Incidents = incidents,
                   TemplateContext = [(''filepaths'', matchingFiles)]\<rparr>, None))))"

subsection \<open>filecontent\<close>

definition contentIncident :: "walkResult \<Rightarrow> IncidentContext" where
  "contentIncident m =
     (let lineNumber = uint (wr_Line m)
      in \<lparr>FileURI = uri_URI (wr_URI m),
          LineNumber = Some lineNumber,
          Variables = [(''matchingText'', VString (wr_match m))],
          CodeLocation = Some (lineLocation lineNumber)\<rparr>)"

fun filecontentIncidents ::
  "world \<Rightarrow> string \<Rightarrow> walkResult list \<Rightarrow> ProviderEvaluateResponse
     \<Rightarrow> ProviderEvaluateResponse \<times> error option" where
  "filecontentIncidents w filePattern [] response =
     (if length (Incidents response) \<noteq> 0 then (response\<lparr>Matched := True\<rparr>, None)
      else (response, None))"
| "filecontentIncidents w filePattern (m # ms) response =
     (case FilterFilePattern w filePattern (wr_URI m) of
        Inl err \<Rightarrow> (response, Some err)
      | Inr containsFile \<Rightarrow>
          if \<not> containsFile then filecontentIncidents w filePattern ms response
          else filecontentIncidents w filePattern ms
                 (response\<lparr>Incidents := Incidents response @ [contentIncident m]\<rparr>))"

definition evalFilecontent ::
  "world \<Rightarrow> builtinServiceClient \<Rightarrow> event list \<Rightarrow> builtinCondition \<Rightarrow> string
     \<Rightarrow> ProviderEvaluateResponse \<times> error option" where
  "evalFilecontent w b sched cond conditionInfo =
     (if filecontent_Pattern cond = [] then
        (emptyResponse, Some (RegexPatternNotString conditionInfo))
      else
        (case regexp2Compile w (filecontent_Pattern cond) of
           Inl err \<Rightarrow>
             (emptyResponse, Some (RegexCompileError (filecontent_Pattern cond) err))
         | Inr patternRegex \<Rightarrow>
             (case parallelWalk w (Location b) patternRegex sched of
                Inl err \<Rightarrow> (emptyResponse, Some err)
              | Inr matches \<Rightarrow>
                  filecontentIncidents w (filecontent_FilePattern cond) matches
                    emptyResponse)))"

subsection \<open>xml and xmlPublicID\<close>

definition unsupportedVersion :: string where
  "unsupportedVersion =
     ''xml: unsupported version '' @ [dquote] @ ''1.1'' @ [dquote] @
     ''; only version 1.0 is supported''"

definition queryDoc :: "world \<Rightarrow> xmlDoc \<Rightarrow> xpathExpr \<Rightarrow> error + xmlNode list" where
  "queryDoc w doc query =
     (case xmlQuerySelectorAll w doc query of
        Inl r \<Rightarrow> Inl (RecoveredPanic r)
      | Inr nodes \<Rightarrow> Inr nodes)"

text \<open>\<open>xmlParse w strict\<close>: \<open>xmlquery.ParseWithOptions\<close> with \<open>Strict: false\<close>, or
  \<open>xmlquery.Parse\<close>; \<open>xmlQuerySelectorAll\<close> returns \<open>Inl\<close> when the library panics.\<close>

definition queryXMLFile :: "world \<Rightarrow> string \<Rightarrow> xpathExpr \<Rightarrow> error + xmlNode list" where
  "queryXMLFile w filePath query =
     (case osOpen w filePath of
        Inl err \<Rightarrow> Inl (OpenFileError filePath err)
      | Inr f \<Rightarrow>
          (case xmlParse w False f of
             Inr doc \<Rightarrow> queryDoc w doc query
           | Inl err \<Rightarrow>
               if err = LibError unsupportedVersion then
                 (case osReadFile w filePath of
                    Inl err' \<Rightarrow> Inl (ParseXMLError filePath err')
                  | Inr b \<Rightarrow>
                      (let docString =
                             replaceFirst (''<?xml version='' @ [dquote] @ ''1.1'' @ [dquote])
                               (''<?xml version = '' @ [dquote] @ ''1.0'' @ [dquote]) b
                       in case xmlParse w True docString of
                            Inl err' \<Rightarrow> Inl (ParseXMLError filePath err')
                          | Inr doc \<Rightarrow> queryDoc w doc query))
               else Inl (ParseXMLError filePath err)))"

definition findXMLFiles :: "world \<Rightarrow> string \<Rightarrow> string list \<Rightarrow> error + string list" where
  "findXMLFiles w baseLocation filePaths =
     GetFiles w baseLocation filePaths [''*.xml'', ''*.xhtml'']"

text \<open>
  The candidate list handed to \<open>findXMLFiles\<close>; \<open>None\<close> is the early return with no
  matches. In the \<open>xml\<close> case a scoped path is appended once when it equals the condition
  path and once more when its base name does.
\<close>

definition xmlFilePaths :: "string list option \<Rightarrow> string list \<Rightarrow> string list option" where
  "xmlFilePaths scoped filepaths =
     (case scoped of
        Some paths \<Rightarrow>
          if length filepaths > 0 then
            (let newPaths =
                   concat (map (\<lambda>p. concat (map (\<lambda>path.
                     (if p = path then [path] else []) @
                     (if Base path = p then [path] else [])) paths)) filepaths)
             in if length newPaths = 0 then None else Some newPaths)
          else Some paths
      | None \<Rightarrow> if length filepaths > 0 then Some filepaths else Some [])"

definition xmlPublicIDFilePaths ::
  "string list option \<Rightarrow> string list \<Rightarrow> string list option" where
  "xmlPublicIDFilePaths scoped filepaths =
     (case scoped of
        Some paths \<Rightarrow>
          if length filepaths > 0 then
            (let newPaths =
                   concat (map (\<lambda>p. concat (map (\<lambda>path.
                     (if p = path then [path] else [])) paths)) filepaths)
             in if length newPaths = 0 then None else Some newPaths)
          else Some paths
      | None \<Rightarrow> if length filepaths > 0 then Some filepaths else Some [])"

definition xmlIncident :: "string \<Rightarrow> xmlNode \<Rightarrow> IncidentContext" where
  "xmlIncident absPath node =
     \<lparr>FileURI = uri_File absPath,
      LineNumber = None,
      Variables = [(''matchingXML'', VString (xml_OutputXML node)),
                   (''innerText'', VString (xml_InnerText node)),
                   (''data'', VString (xml_Data node))],
      CodeLocation = None\<rparr>"

definition withLocation :: "IncidentContext \<Rightarrow> error + location \<Rightarrow> IncidentContext" where
  "withLocation incident r =
     (case r of
        Inl _ \<Rightarrow> incident
      | Inr loc \<Rightarrow>
          incident\<lparr>CodeLocation := Some loc,
                   LineNumber := Some (Line (StartPosition loc))\<rparr>)"

fun xmlNodes ::
  "world \<Rightarrow> builtinServiceClient \<Rightarrow> string \<Rightarrow> xmlNode list
     \<Rightarrow> ProviderEvaluateResponse \<times> state \<Rightarrow> ProviderEvaluateResponse \<times> state" where
  "xmlNodes w b file [] rs = rs"
| "xmlNodes w b file (node # nodes) (response, st) =
     (let absPath = absOrSelf w file
      in if \<not> isFileIncluded w b absPath then xmlNodes w b file nodes (response, st)
         else
           (let trimmed = TrimSpace (xml_InnerText node);
                content = (if trimmed = [] then xml_Data node else trimmed);
                (r, st') = getLocation w st absPath content;
                incident = withLocation (xmlIncident absPath node) r
            in xmlNodes w b file nodes
                 (response\<lparr>Incidents := Incidents response @ [incident]\<rparr>, st')))"

fun xmlFiles ::
  "world \<Rightarrow> builtinServiceClient \<Rightarrow> xpathExpr \<Rightarrow> string list
     \<Rightarrow> ProviderEvaluateResponse \<times> state \<Rightarrow> ProviderEvaluateResponse \<times> state" where
  "xmlFiles w b query [] rs = rs"
| "xmlFiles w b query (file # files) (response, st) =
     (case queryXMLFile w file query of
        Inl _ \<Rightarrow> xmlFiles w b query files (response, st)
      | Inr nodes \<Rightarrow>
          if length nodes \<noteq> 0 then
            xmlFiles w b query files
              (xmlNodes w b file nodes (response\<lparr>Matched := True\<rparr>, st))
          else xmlFiles w b query files (response, st))"

definition evalXML ::
  "world \<Rightarrow> builtinServiceClient \<Rightarrow> state \<Rightarrow> builtinCondition
     \<Rightarrow> (ProviderEvaluateResponse \<times> error option) \<times> state" where
  "evalXML w b st cond =
     (case xpathCompileWithNS w (xml_XPath cond) (xml_Namespaces cond) of
        (None, err) \<Rightarrow> ((emptyResponse, Some (XPathParseError (xml_XPath cond) err)), st)
      | (Some query, Some err) \<Rightarrow>
          ((emptyResponse, Some (XPathParseError (xml_XPath cond) (Some err))), st)
      | (Some query, None) \<Rightarrow>
          (case xmlFilePaths (ctx_ScopedFilepaths cond) (xml_Filepaths cond) of
             None \<Rightarrow> ((emptyResponse, None), st)
           | Some filePaths \<Rightarrow>
               (case findXMLFiles w (Location b) filePaths of
                  Inl err \<Rightarrow> ((emptyResponse, Some (FindXMLFilesError err)), st)
                | Inr files \<Rightarrow>
                    (case xmlFiles w b query files (emptyResponse, st) of
                       (response, st') \<Rightarrow> ((response, None), st')))))"

text \<open>The loop over a node's attributes: the first \<open>public-id\<close> attribute decides, except
  that a match in a file outside the included paths goes on to the next attribute.\<close>

fun publicIDAttrs ::
  "world \<Rightarrow> builtinServiceClient \<Rightarrow> goRegexp \<Rightarrow> string \<Rightarrow> xmlNode \<Rightarrow> (string \<times> string) list
     \<Rightarrow> ProviderEvaluateResponse \<Rightarrow> ProviderEvaluateResponse" where
  "publicIDAttrs w b regex file node [] response = response"
| "publicIDAttrs w b regex file node ((name, val) # attrs) response =
     (if name = ''public-id'' then
        (if go_MatchString regex val then
           (let matched = response\<lparr>Matched := True\<rparr>;
                absPath = absOrSelf w file
            in if \<not> isFileIncluded w b absPath then
                 publicIDAttrs w b regex file node attrs matched
               else matched\<lparr>Incidents := Incidents matched @ [xmlIncident absPath node]\<rparr>)
         else response)
      else publicIDAttrs w b regex file node attrs response)"

fun publicIDNodes ::
  "world \<Rightarrow> builtinServiceClient \<Rightarrow> goRegexp \<Rightarrow> string \<Rightarrow> xmlNode list
     \<Rightarrow> ProviderEvaluateResponse \<Rightarrow> ProviderEvaluateResponse" where
  "publicIDNodes w b regex file [] response = response"
| "publicIDNodes w b regex file (node # nodes) response =
     publicIDNodes w b regex file nodes
       (publicIDAttrs w b regex file node (xml_Attr node) response)"

fun publicIDFiles ::
  "world \<Rightarrow> builtinServiceClient \<Rightarrow> goRegexp \<Rightarrow> xpathExpr \<Rightarrow> string list
     \<Rightarrow> ProviderEvaluateResponse \<Rightarrow> ProviderEvaluateResponse" where
  "publicIDFiles w b regex query [] response = response"
| "publicIDFiles w b regex query (file # files) response =
     (case queryXMLFile w file query of
        Inl _ \<Rightarrow> publicIDFiles w b regex query files response
      | Inr nodes \<Rightarrow>
          publicIDFiles w b regex query files (publicIDNodes w b regex file nodes response))"

definition evalXMLPublicID ::
  "world \<Rightarrow> builtinServiceClient \<Rightarrow> builtinCondition
     \<Rightarrow> ProviderEvaluateResponse \<times> error option" where
  "evalXMLPublicID w b cond =
     (case regexpCompile w (publicid_Regex cond) of
        Inl err \<Rightarrow> (emptyResponse, Some (PublicIDRegexError (publicid_Regex cond) err))
      | Inr regex \<Rightarrow>
          (case xpathCompileWithNS w ''//*[@public-id]'' (publicid_Namespaces cond) of
             (None, err) \<Rightarrow> (emptyResponse, Some (PublicIDQueryError (xml_XPath cond) err))
           | (Some query, Some err) \<Rightarrow>
               (emptyResponse, Some (PublicIDQueryError (xml_XPath cond) (Some err)))
           | (Some query, None) \<Rightarrow>
               (case xmlPublicIDFilePaths (ctx_ScopedFilepaths cond) (xml_Filepaths cond) of
                  None \<Rightarrow> (emptyResponse, None)
                | Some filePaths \<Rightarrow>
                    (case findXMLFiles w (Location b) filePaths of
                       Inl err \<Rightarrow> (emptyResponse, Some (FindXMLFilesError err))
                     | Inr files \<Rightarrow>
                         (publicIDFiles w b regex query files emptyResponse, None)))))"

subsection \<open>json\<close>

text \<open>The candidate list handed to \<open>provider.GetFiles\<close>: the test reads the \<open>xml\<close> group's
  file paths, the assignment the \<open>json\<close> group's.\<close>

definition jsonFilePaths ::
  "string list option \<Rightarrow> string list \<Rightarrow> string list \<Rightarrow> string list" where
  "jsonFilePaths scoped xmlFilepaths jsonFilepaths =
     (case scoped of
        Some paths \<Rightarrow> paths
      | None \<Rightarrow> if length xmlFilepaths > 0 then jsonFilepaths else [])"

definition jsonIncident :: "string \<Rightarrow> jsonNode \<Rightarrow> IncidentContext" where
  "jsonIncident absPath node =
     \<lparr>FileURI = uri_File absPath,
      LineNumber = None,
      Variables = [(''matchingJSON'', VString (json_InnerText node)),
                   (''data'', VString (json_Data node))],
      CodeLocation = None\<rparr>"

fun jsonNodes ::
  "world \<Rightarrow> builtinServiceClient \<Rightarrow> string \<Rightarrow> jsonNode list
     \<Rightarrow> ProviderEvaluateResponse \<times> state \<Rightarrow> ProviderEvaluateResponse \<times> state" where
  "jsonNodes w b file [] rs = rs"
| "jsonNodes w b file (node # nodes) (response, st) =
     (let absPath = absOrSelf w file
      in if \<not> isFileIncluded w b absPath then jsonNodes w b file nodes (response, st)
         else
           (let (r, st') = getLocation w st absPath (json_InnerText node);
                incident = withLocation (jsonIncident absPath node) r
            in jsonNodes w b file nodes
                 (response\<lparr>Incidents := Incidents response @ [incident]\<rparr>, st')))"

fun jsonFiles ::
  "world \<Rightarrow> builtinServiceClient \<Rightarrow> string \<Rightarrow> string list
     \<Rightarrow> ProviderEvaluateResponse \<times> state
     \<Rightarrow> (ProviderEvaluateResponse \<times> error option) \<times> state" where
  "jsonFiles w b query [] (response, st) = ((response, None), st)"
| "jsonFiles w b query (file # files) (response, st) =
     (case osOpen w file of
        Inl _ \<Rightarrow> jsonFiles w b query files (response, st)
      | Inr f \<Rightarrow>
          (case jsonParse w f of
             Inl _ \<Rightarrow> jsonFiles w b query files (response, st)
           | Inr doc \<Rightarrow>
               (case jsonQueryAll w doc query of
                  Inl err \<Rightarrow> ((response, Some err), st)
                | Inr list \<Rightarrow>
                    if length list \<noteq> 0 then
                      jsonFiles w b query files
                        (jsonNodes w b file list (response\<lparr>Matched := True\<rparr>, st))
                    else jsonFiles w b query files (response, st))))"

definition evalJSON ::
  "world \<Rightarrow> builtinServiceClient \<Rightarrow> state \<Rightarrow> builtinCondition \<Rightarrow> string
     \<Rightarrow> (ProviderEvaluateResponse \<times> error option) \<times> state" where
  "evalJSON w b st cond conditionInfo =
     (if json_XPath cond = [] then
        ((emptyResponse, Some (JSONQueryNotString conditionInfo)), st)
      else
        (let filePaths =
               jsonFilePaths (ctx_ScopedFilepaths cond) (xml_Filepaths cond)
                 (json_Filepaths cond)
         in case GetFiles w (Location b) filePaths [''*.json''] of
              Inl err \<Rightarrow> ((emptyResponse, Some (FindFilesError ''*.json'' err)), st)
            | Inr files \<Rightarrow> jsonFiles w b (json_XPath cond) files (emptyResponse, st)))"

subsection \<open>hasTags\<close>

definition evalHasTags ::
  "builtinServiceClient \<Rightarrow> builtinCondition \<Rightarrow> ProviderEvaluateResponse \<times> error option" where
  "evalHasTags b cond =
     (let found = list_all (\<lambda>tag. tag \<in> set (ctx_Tags cond) \<or> tag \<in> set (tags b))
                    (HasTags cond)
      in if found then
           (\<lparr>Matched = True,
             Incidents = [\<lparr>FileURI = uri_URI [], LineNumber = None,
                           Variables = [(''tags'', VStrings (HasTags cond))],
                           CodeLocation = None\<rparr>],
             TemplateContext = []\<rparr>, None)
         else (emptyResponse, None))"

subsection \<open>The dispatcher\<close>

text \<open>
  \<open>Evaluate\<close>: the response and the error (Go returns both), and the state after the
  call. The schedule is the interleaving of the content scan, used by \<open>filecontent\<close> only.
\<close>

definition Evaluate ::
  "world \<Rightarrow> builtinServiceClient \<Rightarrow> event list \<Rightarrow> state \<Rightarrow> string \<Rightarrow> string
     \<Rightarrow> (ProviderEvaluateResponse \<times> error option) \<times> state" where
  "Evaluate w b sched st cap conditionInfo =
     (case yamlUnmarshal w conditionInfo of
        Inl err \<Rightarrow> ((emptyResponse, Some (QueryInfoError err)), st)
      | Inr cond \<Rightarrow>
          if cap = ''file'' then (evalFile w b cond conditionInfo, st)
          else if cap = ''filecontent'' then (evalFilecontent w b sched cond conditionInfo, st)
          else if cap = ''xml'' then evalXML w b st cond
          else if cap = ''xmlPublicID'' then (evalXMLPublicID w b cond, st)
          else if cap = ''json'' then evalJSON w b st cond conditionInfo
          else if cap = ''hasTags'' then (evalHasTags b cond, st)
          else ((emptyResponse, Some (UnknownCapability cap)), st))"


section \<open>A small world for the examples\<close>

text \<open>
  A file system with nothing in it and libraries that accept every query and find
  nothing. The examples below change the fields they need.
\<close>

definition quietWorld :: world where
  "quietWorld =
     \<lparr>yamlUnmarshal = (\<lambda>_. Inl (LibError ''yaml'')),
      getwd = Inr ''/'',
      isDir = (\<lambda>_. False),
      walk = (\<lambda>_. []),
      openLines = (\<lambda>_. Inl (LibError ''open'')),
      osOpen = (\<lambda>_. Inl (LibError ''open'')),
      osReadFile = (\<lambda>_. Inl (LibError ''read'')),
      regexpCompile = (\<lambda>_. Inl (LibError ''regexp'')),
      regexp2Compile = (\<lambda>_. Inl (LibError ''regexp2'')),
      filepathMatch = (\<lambda>_ _. Inr False),
      FilterFilePattern = (\<lambda>_ _. Inr True),
      GetFiles = (\<lambda>_ paths _. Inr paths),
      MultilineGrep = (\<lambda>_ _ _. (- 1, None)),
      xpathCompileWithNS = (\<lambda>e ns. (Some \<lparr>xp_expr = e, xp_namespaces = ns\<rparr>, None)),
      xmlParse = (\<lambda>_ text. Inr (XmlDoc text)),
      xmlQuerySelectorAll = (\<lambda>_ _. Inr []),
      jsonParse = (\<lambda>text. Inr (JsonDoc text)),
      jsonQueryAll = (\<lambda>_ _. Inr [])\<rparr>"

definition emptyCondition :: builtinCondition where
  "emptyCondition =
     \<lparr>file_Pattern = [], filecontent_Pattern = [], filecontent_FilePattern = [],
      xml_XPath = [], xml_Namespaces = [], xml_Filepaths = [],
      publicid_Regex = [], publicid_Namespaces = [],
      json_XPath = [], json_Filepaths = [],
      HasTags = [], ctx_RuleID = [], ctx_Tags = [], ctx_ScopedFilepaths = None\<rparr>"

definition emptyState :: state where
  "emptyState = \<lparr>locationCache = Map.empty, grepCalls = []\<rparr>"


text \<open>Compiled expressions for the examples: an anchored literal for Go's engine, and an
  expression of the backtracking engine that matches nothing.\<close>

definition exactRegexp :: "string \<Rightarrow> goRegexp" where
  "exactRegexp t =
     \<lparr>go_MatchString = (\<lambda>s. s = t),
      go_FindStringSubmatch = (\<lambda>s. if s = t then [t] else []),
      go_FindString = (\<lambda>s. if s = t then t else []),
      go_FindStringIndex = (\<lambda>s. if s = t then Some (0, length t) else None)\<rparr>"

definition noMatches :: regexp2 where
  "noMatches =
     \<lparr>r2_MatchString = (\<lambda>_. (False, None)),
      r2_matches = (\<lambda>_. ([], None))\<rparr>"

definition directory :: "string \<Rightarrow> entry" where
  "directory p = \<lparr>epath = p, ename = Base p, eregular = False, eerr = None\<rparr>"

definition regularFile :: "string \<Rightarrow> entry" where
  "regularFile p = \<lparr>epath = p, ename = Base p, eregular = True, eerr = None\<rparr>"

text \<open>A root \<open>/r\<close> with the files \<open>a\<close> and \<open>b\<close>; \<open>a\<close> cannot be opened.\<close>

definition twoFiles :: world where
  "twoFiles = quietWorld\<lparr>
     yamlUnmarshal := (\<lambda>_. Inr (emptyCondition\<lparr>filecontent_Pattern := ''TODO''\<rparr>)),
     walk := (\<lambda>_. [directory ''/r'', regularFile ''/r/a'', regularFile ''/r/b'']),
     openLines := (\<lambda>p. if p = ''/r/a'' then Inl (LibError ''permission denied'')
                       else Inr ([], None)),
     regexp2Compile := (\<lambda>_. Inr noMatches)\<rparr>"

text \<open>A root \<open>/r\<close> holding \<open>a.xml\<close>, and a pattern that compiles to the anchored literal.\<close>

definition oneXML :: world where
  "oneXML = quietWorld\<lparr>
     walk := (\<lambda>_. [directory ''/r'', regularFile ''/r/a.xml'']),
     regexpCompile := (\<lambda>_. Inr (exactRegexp ''a.xml''))\<rparr>"

text \<open>One XML document \<open>/r/lib/a.xml\<close> with one node for every query; \<open>/r/src\<close> is a
  directory.\<close>

definition libXML :: world where
  "libXML = quietWorld\<lparr>
     yamlUnmarshal := (\<lambda>_. Inr (emptyCondition\<lparr>xml_XPath := ''//a''\<rparr>)),
     GetFiles := (\<lambda>_ _ _. Inr [''/r/lib/a.xml'']),
     osOpen := (\<lambda>_. Inr ''<a/>''),
     xmlQuerySelectorAll :=
       (\<lambda>_ _. Inr [\<lparr>xml_OutputXML = ''<a/>'', xml_InnerText = [], xml_Data = ''a'',
                     xml_Attr = []\<rparr>]),
     isDir := (\<lambda>p. p = ''/r/src'')\<rparr>"

definition srcOnly :: builtinServiceClient where
  "srcOnly = \<lparr>Location = ''/r'', tags = [], includedPaths = [''src'']\<rparr>"

text \<open>Two JSON documents under \<open>/r\<close>; with no candidate list \<open>GetFiles\<close> searches the tree
  and finds both. Every document has one node for every query.\<close>

definition twoJSON :: world where
  "twoJSON = quietWorld\<lparr>
     GetFiles := (\<lambda>_ paths _. if paths = [] then Inr [''/r/a.json'', ''/r/b.json'']
                               else Inr paths),
     osOpen := (\<lambda>p. Inr p),
     jsonQueryAll := (\<lambda>_ _. Inr [\<lparr>json_InnerText = ''v'', json_Data = ''v''\<rparr>])\<rparr>"

definition rootOnly :: builtinServiceClient where
  "rootOnly = \<lparr>Location = ''/r'', tags = [], includedPaths = []\<rparr>"


section \<open>Properties of the location resolver\<close>

lemma splitOn_nonempty: "splitOn c s \<noteq> []"
  by (induction s) (auto split: list.splits)

lemma join_nil: "join [] xs = concat xs"
  by (induction "[]::string" xs rule: join.induct) auto

lemma patternLines_origin:
  "l \<in> set (patternLines parts) \<Longrightarrow>
     \<exists>p \<in> set parts. l = QuoteMeta (removeTabs (trimSpaces p))"
  unfolding patternLines_def Let_def
  by (auto split: if_splits dest!: in_set_butlastD in_set_takeD list.set_sel(2)[rotated])

text \<open>
  C8, as the code has it. When every line of the content is empty once its surrounding
  spaces are trimmed and its tabs are then removed, \<open>getLocation\<close> fails with the
  empty-content error and leaves the state as it was: no cache entry is written and the
  file is not searched.
\<close>

theorem getLocation_blank_content:
  assumes "\<forall>line \<in> set (splitOn newline content). removeTabs (trimSpaces line) = []"
  shows "getLocation w st path content = (Inl EmptyContent, st)"
proof -
  have "\<forall>l \<in> set (patternLines (splitOn newline content)). l = []"
  proof
    fix l assume "l \<in> set (patternLines (splitOn newline content))"
    then obtain p where "p \<in> set (splitOn newline content)"
      and "l = QuoteMeta (removeTabs (trimSpaces p))"
      using patternLines_origin by blast
    with assms show "l = []" by (simp add: QuoteMeta_def)
  qed
  then have "join [] (patternLines (splitOn newline content)) = []"
    by (simp add: join_nil)
  then show ?thesis
    by (simp add: getLocation_def Let_def)
qed

text \<open>The content \<open>"  \t\n "\<close> (two lines of spaces and a tab), in a state that already has
  a cache entry for another key.\<close>

theorem getLocation_blank_content_witness:
  "getLocation quietWorld (emptyState\<lparr>locationCache := [''k'' \<mapsto> 3]\<rparr>) ''/r/a.xml''
     (''  '' @ [tab, newline] @ '' '') =
   (Inl EmptyContent, emptyState\<lparr>locationCache := [''k'' \<mapsto> 3]\<rparr>)"
proof -
  have "\<forall>line \<in> set (splitOn newline (''  '' @ [tab, newline] @ '' '')).
          removeTabs (trimSpaces line) = []"
    by (simp add: newline_def tab_def removeTabs_def trimSpaces_def)
  then show ?thesis
    by (rule getLocation_blank_content)
qed

text \<open>
  A line of white space is not always such a line. The one-line content \<open>"\t \t"\<close> (tab,
  space, tab) has no space to trim at its ends, and the space is left when the tabs are
  removed: the content is searched for with the pattern \<open>".*? "\<close>, and the outcome (here
  a failure to find it) is written to the cache.
\<close>

theorem tab_space_tab_is_searched:
  "list_all isSpace [tab, CHR '' '', tab] \<and>
   splitOn newline [tab, CHR '' '', tab] = [[tab, CHR '' '', tab]] \<and>
   fst (getLocation quietWorld emptyState ''/r/a.xml'' [tab, CHR '' '', tab])
     = Inl (LocationNotFound ''/r/a.xml'' None) \<and>
   locationCache (snd (getLocation quietWorld emptyState ''/r/a.xml'' [tab, CHR '' '', tab]))
     ''/r/a.xml-.*? '' = Some (- 1) \<and>
   grepCalls (snd (getLocation quietWorld emptyState ''/r/a.xml'' [tab, CHR '' '', tab]))
     = [(1, ''/r/a.xml'', ''.*? '')]"
  by code_simp

text \<open>What a call does once its content yields a key: a hit replays the cache, a miss
  searches the file and stores the line found, or the sentinel \<open>-1\<close>.\<close>

lemma getLocation_key:
  assumes "locationKey path content = Some k"
  shows "getLocation w st path content =
     (case locationCache st k of
        Some val \<Rightarrow>
          (if val = - 1 then (Inl PreviousLocationError, st)
           else (Inr (lineLocation val), st))
      | None \<Rightarrow>
         (let lines = patternLines (splitOn newline content);
              (lineNumber, err) = MultilineGrep w (length lines) path (fuzzyPattern lines);
              scanned = grepCalls st @ [(length lines, path, fuzzyPattern lines)]
          in if err \<noteq> None \<or> lineNumber = - 1 then
               (Inl (LocationNotFound path err),
                st\<lparr>locationCache := (locationCache st)(k \<mapsto> - 1), grepCalls := scanned\<rparr>)
             else
               (Inr (lineLocation lineNumber),
                st\<lparr>locationCache := (locationCache st)(k \<mapsto> lineNumber),
                   grepCalls := scanned\<rparr>)))"
  using assms splitOn_nonempty[of newline content]
  unfolding locationKey_def getLocation_def Let_def
  by (auto split: if_splits option.splits)

lemma getLocation_no_key:
  "locationKey path content = None \<Longrightarrow> getLocation w st path content = (Inl EmptyContent, st)"
  unfolding locationKey_def getLocation_def Let_def
  by (auto split: if_splits)

text \<open>An entry of the cache is never overwritten.\<close>

lemma getLocation_keeps_entries:
  assumes "locationCache st k = Some v"
  shows "locationCache (snd (getLocation w st path content)) k = Some v"
proof (cases "locationKey path content")
  case None
  then show ?thesis
    using assms by (simp add: getLocation_no_key)
next
  case (Some k')
  show ?thesis
    using assms unfolding getLocation_key[OF Some]
    by (cases "k' = k") (auto split: option.splits prod.splits simp: Let_def)
qed

text \<open>
  C6. Once a call of \<open>getLocation\<close> has resolved the key of a \<open>(path, content)\<close> pair, a
  later call that derives the same key, in a state \<open>st''\<close> that still has the entry the
  first call left (entries are never overwritten: \<open>getLocation_keeps_entries\<close>), returns
  the stored result and leaves the state unchanged, so the file is not searched again
  (the log of searches is part of the state): a location is returned as it was, a
  failure comes back as the previous-error error. The later call may run in any world
  \<open>w'\<close>: the file may have changed or be gone.
\<close>

theorem getLocation_replays_cache:
  assumes first: "getLocation w st path content = (r, st')"
    and key: "locationKey path content = Some k"
    and same: "locationKey path' content' = Some k"
    and kept: "locationCache st'' k = locationCache st' k"
  shows "getLocation w' st'' path' content' =
           ((case r of Inr loc \<Rightarrow> Inr loc | Inl _ \<Rightarrow> Inl PreviousLocationError), st'')"
  using first kept unfolding getLocation_key[OF key] getLocation_key[OF same]
  by (auto split: option.splits if_splits prod.splits simp: Let_def)

text \<open>A first call finds line 7; the second call runs where the search finds nothing.\<close>

lemma first_call_example:
  "fst (getLocation (quietWorld\<lparr>MultilineGrep := (\<lambda>_ _ _. (7, None))\<rparr>) emptyState
          ''/r/a.xml'' ''abc'') = Inr (lineLocation 7) \<and>
   grepCalls (snd (getLocation (quietWorld\<lparr>MultilineGrep := (\<lambda>_ _ _. (7, None))\<rparr>) emptyState
          ''/r/a.xml'' ''abc'')) = [(1, ''/r/a.xml'', ''.*?abc'')] \<and>
   locationKey ''/r/a.xml'' ''abc'' = Some ''/r/a.xml-.*?abc''"
  by code_simp

theorem getLocation_replays_cache_witness:
  "fst (getLocation quietWorld
          (snd (getLocation (quietWorld\<lparr>MultilineGrep := (\<lambda>_ _ _. (7, None))\<rparr>) emptyState
                  ''/r/a.xml'' ''abc''))
          ''/r/a.xml'' ''abc'') = Inr (lineLocation 7) \<and>
   grepCalls (snd (getLocation quietWorld
          (snd (getLocation (quietWorld\<lparr>MultilineGrep := (\<lambda>_ _ _. (7, None))\<rparr>) emptyState
                  ''/r/a.xml'' ''abc''))
          ''/r/a.xml'' ''abc'')) = [(1, ''/r/a.xml'', ''.*?abc'')]"
proof -
  let ?w = "quietWorld\<lparr>MultilineGrep := (\<lambda>_ _ _. (7, None))\<rparr>"
  let ?first = "getLocation ?w emptyState ''/r/a.xml'' ''abc''"
  have 1: "?first = (fst ?first, snd ?first)" by simp
  have k: "locationKey ''/r/a.xml'' ''abc'' = Some ''/r/a.xml-.*?abc''"
    using first_call_example by simp
  from getLocation_replays_cache[OF 1 k k refl, of quietWorld]
  show ?thesis using first_call_example by simp
qed

text \<open>The same for a failure: the first call does not find the content and stores the
  sentinel; the second call, where the search would succeed, replays the failure.\<close>

lemma failed_call_example:
  "fst (getLocation quietWorld emptyState ''/r/a.xml'' ''abc'')
     = Inl (LocationNotFound ''/r/a.xml'' None) \<and>
   fst (getLocation (quietWorld\<lparr>MultilineGrep := (\<lambda>_ _ _. (7, None))\<rparr>)
          (snd (getLocation quietWorld emptyState ''/r/a.xml'' ''abc''))
          ''/r/a.xml'' ''abc'') = Inl PreviousLocationError"
  by code_simp


section \<open>Properties of the bounded scan\<close>

lemma limit_pos: "0 < limit"
  by (simp add: limit_def)

lemma step_running_bounded:
  "step w regex ev s = Some s' \<Longrightarrow> length (running s) \<le> limit \<Longrightarrow>
     length (running s') \<le> limit"
  by (cases ev) (auto split: if_splits list.splits option.splits sum.splits simp: Let_def)

lemma fire_running_bounded:
  "length (running s) \<le> limit \<Longrightarrow> length (running (fire w regex s ev)) \<le> limit"
  by (auto simp: fire_def split: option.splits dest: step_running_bounded)

lemma exec_running_bounded:
  "length (running s) \<le> limit \<Longrightarrow> length (running (exec w regex sched s)) \<le> limit"
  unfolding exec_def
  by (induction sched arbitrary: s) (auto simp: fire_running_bounded)

text \<open>
  C9. At every moment of every execution of \<open>parallelWalk\<close> over any tree, whatever the
  interleaving of the walk and the goroutines, at most 256 scanning goroutines run;
  each has at most its own file open.
\<close>

theorem parallelWalk_concurrency_ceiling:
  "length (running (exec w regex sched (initial es))) \<le> 256"
  using exec_running_bounded[of "initial es" w regex sched]
  by (simp add: initial_def limit_def)

text \<open>The ceiling is met: when the group runs 256 goroutines, \<open>eg.Go\<close> does not start
  another.\<close>

lemma eg_Go_blocks_at_limit:
  "length (running s) = limit \<Longrightarrow> pending s = e # es \<Longrightarrow> eerr e = None \<Longrightarrow> eregular e \<Longrightarrow>
     fire w regex s Visit = s"
  by (auto simp: fire_def)

lemma visits_fill_the_group:
  "n + length (running s) \<le> limit \<Longrightarrow> walkErr s = None \<Longrightarrow> n \<le> length (pending s) \<Longrightarrow>
   \<forall>e \<in> set (pending s). eregular e \<and> eerr e = None \<Longrightarrow>
   length (running (exec w regex (replicate n Visit) s)) = n + length (running s)"
  unfolding exec_def
proof (induction n arbitrary: s)
  case 0
  then show ?case by simp
next
  case (Suc n)
  then obtain e es where p: "pending s = e # es"
    by (cases "pending s") auto
  let ?s = "s\<lparr>pending := es, running := running s @ [epath e],
               scheduled := scheduled s @ [epath e]\<rparr>"
  have f: "fire w regex s Visit = ?s"
    using Suc.prems p by (auto simp: fire_def)
  have "length (running (foldl (fire w regex) ?s (replicate n Visit))) =
          n + length (running ?s)"
    using Suc.prems p by (intro Suc.IH) auto
  then show ?case
    using f by simp
qed

subsection \<open>Failure of a file\<close>

lemma in_set_remove_nth:
  "i < length xs \<Longrightarrow> x \<in> set xs \<Longrightarrow> x = xs ! i \<or> x \<in> set (take i xs @ drop (Suc i) xs)"
  by (metis Un_iff id_take_nth_drop set_ConsD set_append)

lemma set_remove_nth_subset: "set (take i xs @ drop (Suc i) xs) \<subseteq> set xs"
  by (auto dest: in_set_takeD in_set_dropD)

lemma walkInv_initial:
  "\<forall>e \<in> set es. eerr e = None \<Longrightarrow> walkInv w regex es (initial es)"
  by (simp add: walkInv_def initial_def)

lemma walkInv_step:
  assumes "walkInv w regex es s" and "step w regex ev s = Some s'"
  shows "walkInv w regex es s'"
proof (cases ev)
  case Visit
  with assms show ?thesis
    unfolding walkInv_def regularPaths_def
    by (auto split: if_splits list.splits option.splits)
next
  case (Finish i)
  with assms have i: "i < length (running s)"
    by (auto split: if_splits)
  have mem: "\<And>p. p \<in> set (running s) \<Longrightarrow>
      p = running s ! i \<or> p \<in> set (take i (running s) @ drop (Suc i) (running s))"
    using in_set_remove_nth[OF i] by blast
  have sub: "set (take i (running s) @ drop (Suc i) (running s)) \<subseteq> set (running s)"
    by (rule set_remove_nth_subset)
  have ri: "running s ! i \<in> set (scheduled s)"
    using assms(1) i unfolding walkInv_def by (meson nth_mem subsetD)
  show ?thesis
  proof (cases "processFile w (running s ! i) regex")
    case (Inl err)
    with assms Finish i
    have s': "s' = s\<lparr>running := take i (running s) @ drop (Suc i) (running s),
        groupErr := (case groupErr s of None \<Rightarrow> Some err | Some e \<Rightarrow> Some e)\<rparr>"
      by (simp add: Let_def)
    show ?thesis
      using assms(1) mem sub ri Inl unfolding s' walkInv_def
      by (auto split: option.splits)
  next
    case (Inr pos)
    with assms Finish i
    have s': "s' = s\<lparr>running := take i (running s) @ drop (Suc i) (running s),
        positions := positions s @ pos\<rparr>"
      by (simp add: Let_def)
    show ?thesis
      using assms(1) mem sub ri Inr unfolding s' walkInv_def
      by (auto split: option.splits) (metis Inl_Inr_False)
  qed
qed

lemma walkInv_fire: "walkInv w regex es s \<Longrightarrow> walkInv w regex es (fire w regex s ev)"
  by (auto simp: fire_def split: option.splits intro: walkInv_step)

lemma walkInv_exec: "walkInv w regex es s \<Longrightarrow> walkInv w regex es (exec w regex sched s)"
  unfolding exec_def
  by (induction sched arbitrary: s) (auto simp: walkInv_fire)

lemma exec_append: "exec w regex (xs @ ys) s = exec w regex ys (exec w regex xs s)"
  by (simp add: exec_def)

text \<open>The group keeps the first error it is given.\<close>

lemma groupErr_fire: "groupErr s = Some err \<Longrightarrow> groupErr (fire w regex s ev) = Some err"
  by (cases ev)
    (auto simp: fire_def Let_def split: option.splits if_splits list.splits sum.splits)

lemma groupErr_exec: "groupErr s = Some err \<Longrightarrow> groupErr (exec w regex sched s) = Some err"
  unfolding exec_def
  by (induction sched arbitrary: s) (auto simp: groupErr_fire)

text \<open>Finishing the running goroutines.\<close>

lemma fire_Finish_pending: "pending (fire w regex s (Finish i)) = pending s"
  by (auto simp: fire_def Let_def split: option.splits if_splits sum.splits)

lemma fire_Finish_running:
  "running s \<noteq> [] \<Longrightarrow> running (fire w regex s (Finish 0)) = tl (running s)"
  by (cases "running s")
    (auto simp: fire_def Let_def split: option.splits if_splits sum.splits)

lemma exec_finish_all:
  "length (running s) = n \<Longrightarrow>
   running (exec w regex (replicate n (Finish 0)) s) = [] \<and>
   pending (exec w regex (replicate n (Finish 0)) s) = pending s"
  unfolding exec_def
proof (induction n arbitrary: s)
  case 0
  then show ?case by simp
next
  case (Suc n)
  then have ne: "running s \<noteq> []" by auto
  have "length (running (fire w regex s (Finish 0))) = n"
    using Suc.prems fire_Finish_running[OF ne] by simp
  from Suc.IH[OF this] show ?case
    by (simp add: fire_Finish_pending)
qed

text \<open>The rest of a walk that meets no error, one file at a time.\<close>

lemma fire_Visit_Finish:
  assumes "running s = []" "walkErr s = None" "pending s = e # es" "eerr e = None"
  shows "running (fire w regex (fire w regex s Visit) (Finish 0)) = [] \<and>
         pending (fire w regex (fire w regex s Visit) (Finish 0)) = es \<and>
         walkErr (fire w regex (fire w regex s Visit) (Finish 0)) = None"
  using assms limit_pos
  by (auto simp: fire_def Let_def split: option.splits if_splits sum.splits)

lemma exec_visit_all:
  "running s = [] \<Longrightarrow> walkErr s = None \<Longrightarrow> length (pending s) = n \<Longrightarrow>
   \<forall>e \<in> set (pending s). eerr e = None \<Longrightarrow>
   running (exec w regex (concat (replicate n [Visit, Finish 0])) s) = [] \<and>
   pending (exec w regex (concat (replicate n [Visit, Finish 0])) s) = []"
  unfolding exec_def
proof (induction n arbitrary: s)
  case 0
  then show ?case by simp
next
  case (Suc n)
  then obtain e es where p: "pending s = e # es"
    by (cases "pending s") auto
  let ?s = "fire w regex (fire w regex s Visit) (Finish 0)"
  have step: "running ?s = [] \<and> pending ?s = es \<and> walkErr ?s = None"
    using fire_Visit_Finish[of s e es w regex] Suc.prems p by simp
  have "running (foldl (fire w regex) ?s (concat (replicate n [Visit, Finish 0]))) = [] \<and>
        pending (foldl (fire w regex) ?s (concat (replicate n [Visit, Finish 0]))) = []"
    using step Suc.prems p by (intro Suc.IH) auto
  then show ?case by simp
qed

lemma complete_done:
  assumes "walkInv w regex es s"
  shows "running (complete w regex s) = [] \<and> pending (complete w regex s) = []"
proof -
  let ?s1 = "exec w regex (replicate (length (running s)) (Finish 0)) s"
  have 1: "running ?s1 = [] \<and> pending ?s1 = pending s"
    by (rule exec_finish_all) simp
  have inv1: "walkInv w regex es ?s1"
    using assms by (rule walkInv_exec)
  have "running (exec w regex
                   (concat (replicate (length (pending s)) [Visit, Finish 0])) ?s1) = [] \<and>
        pending (exec w regex
                   (concat (replicate (length (pending s)) [Visit, Finish 0])) ?s1) = []"
    using 1 inv1 by (intro exec_visit_all) (auto simp: walkInv_def)
  then show ?thesis
    by (simp add: complete_def exec_append)
qed

lemma walkInv_complete: "walkInv w regex es s \<Longrightarrow> walkInv w regex es (complete w regex s)"
  by (simp add: complete_def walkInv_exec)

lemma groupErr_complete:
  "groupErr s = Some err \<Longrightarrow> groupErr (complete w regex s) = Some err"
  by (simp add: complete_def groupErr_exec)

text \<open>
  The end of a scan whose walk met no error and one of whose regular files cannot be
  scanned: every regular file was handed to \<open>eg.Go\<close>, nothing is left running or
  unvisited, and \<open>parallelWalk\<close> returns the failure of one of the files.
\<close>

lemma parallelWalk_failure:
  assumes walk_ok: "\<forall>e \<in> set (walk w location). eerr e = None"
    and bad: "e \<in> set (walk w location)" "eregular e"
             "processFile w (epath e) regex = Inl err0"
  shows "scheduled (finalState w location regex sched) = regularPaths (walk w location) \<and>
         running (finalState w location regex sched) = [] \<and>
         pending (finalState w location regex sched) = [] \<and>
         (\<exists>err. groupErr (finalState w location regex sched) = Some err \<and>
                parallelWalk w location regex sched = Inl err \<and>
                (\<exists>p \<in> set (regularPaths (walk w location)).
                    processFile w p regex = Inl err))"
proof -
  let ?es = "walk w location"
  let ?mid = "exec w regex sched (initial ?es)"
  let ?fin = "finalState w location regex sched"
  have mid: "walkInv w regex ?es ?mid"
    using walk_ok by (intro walkInv_exec walkInv_initial)
  then have fin: "walkInv w regex ?es ?fin"
    unfolding finalState_def by (rule walkInv_complete)
  have idle: "running ?fin = [] \<and> pending ?fin = []"
    unfolding finalState_def using mid by (rule complete_done)
  have sched: "scheduled ?fin = regularPaths ?es"
    using fin idle unfolding walkInv_def by (simp add: regularPaths_def)
  have "epath e \<in> set (regularPaths ?es)"
    using bad(1,2) by (auto simp: regularPaths_def)
  then have "groupErr ?fin \<noteq> None"
    using fin idle sched bad(3) unfolding walkInv_def by auto
  then obtain err where err: "groupErr ?fin = Some err"
    by auto
  then have from_file: "\<exists>p \<in> set (regularPaths ?es). processFile w p regex = Inl err"
    using fin sched unfolding walkInv_def by auto
  have "walkErr ?fin = None"
    using fin unfolding walkInv_def by simp
  then have "parallelWalk w location regex sched = Inl err"
    using err by (simp add: parallelWalk_def outcome_def)
  then show ?thesis
    using idle sched err from_file by auto
qed

text \<open>
  C7, as the code has it. For the \<open>filecontent\<close> capability, when the walk itself
  reports no error and some regular file under the root cannot be opened or matched,
  the whole evaluation fails, whatever the interleaving:
  \<^item> every regular file of the tree is handed to a goroutine (scheduling does not stop at
    an error of a goroutine);
  \<^item> \<open>parallelWalk\<close> returns when the walk is over and no goroutine is running, and what
    it returns is the failure of one of the files: the first one the group recorded, at
    whatever point of the execution that was;
  \<^item> \<open>Evaluate\<close> returns that error with \<open>Matched\<close> false and no incident.
\<close>

theorem filecontent_fails_when_a_file_fails:
  assumes yaml: "yamlUnmarshal w conditionInfo = Inr cond"
    and pat: "filecontent_Pattern cond \<noteq> []"
    and re: "regexp2Compile w (filecontent_Pattern cond) = Inr regex"
    and walk_ok: "\<forall>e \<in> set (walk w (Location b)). eerr e = None"
    and bad: "e \<in> set (walk w (Location b))" "eregular e"
             "processFile w (epath e) regex = Inl err0"
  shows "scheduled (finalState w (Location b) regex sched) =
           regularPaths (walk w (Location b)) \<and>
         running (finalState w (Location b) regex sched) = [] \<and>
         pending (finalState w (Location b) regex sched) = [] \<and>
         (\<exists>err. parallelWalk w (Location b) regex sched = Inl err \<and>
            (\<exists>p \<in> set (regularPaths (walk w (Location b))).
                processFile w p regex = Inl err) \<and>
            (\<forall>before after first.
                sched = before @ after \<and>
                groupErr (exec w regex before (initial (walk w (Location b)))) = Some first
                \<longrightarrow> err = first) \<and>
            Evaluate w b sched st ''filecontent'' conditionInfo =
              ((emptyResponse, Some err), st))"
proof -
  let ?loc = "Location b"
  from parallelWalk_failure[OF walk_ok bad, of sched]
  obtain err where
    ends: "scheduled (finalState w ?loc regex sched) = regularPaths (walk w ?loc)"
          "running (finalState w ?loc regex sched) = []"
          "pending (finalState w ?loc regex sched) = []"
    and err: "groupErr (finalState w ?loc regex sched) = Some err"
    and res: "parallelWalk w ?loc regex sched = Inl err"
    and from_file: "\<exists>p \<in> set (regularPaths (walk w ?loc)). processFile w p regex = Inl err"
    by blast
  have first: "err = first"
    if "sched = before @ after"
      and "groupErr (exec w regex before (initial (walk w ?loc))) = Some first"
    for before after first
  proof -
    have "groupErr (finalState w ?loc regex sched) = Some first"
      unfolding finalState_def that(1) exec_append
      by (rule groupErr_complete, rule groupErr_exec, rule that(2))
    with err show ?thesis by simp
  qed
  have eval: "Evaluate w b sched st ''filecontent'' conditionInfo =
                ((emptyResponse, Some err), st)"
    using yaml pat re res by (simp add: Evaluate_def evalFilecontent_def)
  show ?thesis
    using ends res from_file first eval by blast
qed

text \<open>
  The tree \<open>/r\<close> with the files \<open>a\<close>, which cannot be opened, and \<open>b\<close>. In the execution
  where the goroutine of \<open>a\<close> has failed before the walk reaches \<open>b\<close>, the group holds
  the error and only \<open>a\<close> has been scheduled; the next step of the walk schedules \<open>b\<close>
  all the same.
\<close>

theorem scheduling_goes_on_after_an_error:
  "groupErr (exec twoFiles noMatches [Visit, Visit, Finish 0] (initial (walk twoFiles ''/r'')))
     = Some (LibError ''permission denied'') \<and>
   scheduled (exec twoFiles noMatches [Visit, Visit, Finish 0] (initial (walk twoFiles ''/r'')))
     = [''/r/a''] \<and>
   scheduled (exec twoFiles noMatches [Visit, Visit, Finish 0, Visit]
                (initial (walk twoFiles ''/r'')))
     = [''/r/a'', ''/r/b''] \<and>
   running (exec twoFiles noMatches [Visit, Visit, Finish 0, Visit]
                (initial (walk twoFiles ''/r'')))
     = [''/r/b'']"
  by code_simp

text \<open>A read that fails is not a failure of the scan: \<open>processFile\<close> returns what the
  lines read so far gave.\<close>

lemma read_failure_is_silent:
  "openLines w path = Inr ([], Some err) \<Longrightarrow> processFile w path regex = Inr []"
  by (simp add: processFile_def)

lemma twoFiles_facts:
  "yamlUnmarshal twoFiles ''c'' = Inr (emptyCondition\<lparr>filecontent_Pattern := ''TODO''\<rparr>) \<and>
   regexp2Compile twoFiles ''TODO'' = Inr noMatches \<and>
   walk twoFiles ''/r'' = [directory ''/r'', regularFile ''/r/a'', regularFile ''/r/b''] \<and>
   processFile twoFiles ''/r/a'' noMatches = Inl (LibError ''permission denied'') \<and>
   processFile twoFiles ''/r/b'' noMatches = Inr []"
  by (simp add: twoFiles_def quietWorld_def processFile_def)

theorem filecontent_fails_when_a_file_fails_witness:
  "Evaluate twoFiles rootOnly [Visit, Visit, Finish 0, Visit] emptyState ''filecontent'' ''c''
     = ((emptyResponse, Some (LibError ''permission denied'')), emptyState) \<and>
   scheduled (finalState twoFiles ''/r'' noMatches [Visit, Visit, Finish 0, Visit])
     = [''/r/a'', ''/r/b''] \<and>
   running (finalState twoFiles ''/r'' noMatches [Visit, Visit, Finish 0, Visit]) = []"
proof -
  let ?cond = "emptyCondition\<lparr>filecontent_Pattern := ''TODO''\<rparr>"
  have loc: "Location rootOnly = ''/r''"
    by (simp add: rootOnly_def)
  have yaml: "yamlUnmarshal twoFiles ''c'' = Inr ?cond"
    using twoFiles_facts by simp
  have pat: "filecontent_Pattern ?cond \<noteq> []"
    by (simp add: emptyCondition_def)
  have re: "regexp2Compile twoFiles (filecontent_Pattern ?cond) = Inr noMatches"
    using twoFiles_facts by (simp add: emptyCondition_def)
  have walk_ok: "\<forall>e \<in> set (walk twoFiles (Location rootOnly)). eerr e = None"
    using twoFiles_facts by (simp add: loc directory_def regularFile_def)
  have bad: "regularFile ''/r/a'' \<in> set (walk twoFiles (Location rootOnly))"
            "eregular (regularFile ''/r/a'')"
            "processFile twoFiles (epath (regularFile ''/r/a'')) noMatches
               = Inl (LibError ''permission denied'')"
    using twoFiles_facts by (simp_all add: loc regularFile_def)
  have paths: "regularPaths (walk twoFiles ''/r'') = [''/r/a'', ''/r/b'']"
    using twoFiles_facts by (simp add: regularPaths_def directory_def regularFile_def)
  from filecontent_fails_when_a_file_fails[OF yaml pat re walk_ok bad,
         of "[Visit, Visit, Finish 0, Visit]" emptyState]
  obtain err where
    ends: "scheduled (finalState twoFiles ''/r'' noMatches [Visit, Visit, Finish 0, Visit])
             = [''/r/a'', ''/r/b'']"
          "running (finalState twoFiles ''/r'' noMatches [Visit, Visit, Finish 0, Visit]) = []"
    and from_file: "\<exists>p \<in> set [''/r/a'', ''/r/b''].
                      processFile twoFiles p noMatches = Inl err"
    and eval: "Evaluate twoFiles rootOnly [Visit, Visit, Finish 0, Visit] emptyState
                 ''filecontent'' ''c'' = ((emptyResponse, Some err), emptyState)"
    unfolding loc paths by blast
  from from_file have "err = LibError ''permission denied''"
    using twoFiles_facts by auto
  with ends eval show ?thesis by simp
qed


section \<open>Properties of the file capability\<close>

lemma scopedMatches_regex:
  assumes "regexpCompile w pattern = Inr regex"
  shows "scopedMatches w pattern paths = filter (go_MatchString regex) paths"
  using assms by (simp add: scopedMatches_def matchesPattern_def)

lemma walkDirMatches_regex:
  assumes "regexpCompile w pattern = Inr regex"
  shows "fst (walkDirMatches w pattern ds acc) =
           acc @ map epath (filter (\<lambda>d. go_MatchString regex (ename d))
                              (takeWhile (\<lambda>d. eerr d = None) ds))"
  using assms
  by (induction ds arbitrary: acc) (auto simp: matchesPattern_def split: option.splits)

lemma oneXML_example:
  "Incidents (fst (evalFile oneXML rootOnly
      (emptyCondition\<lparr>file_Pattern := ''^a[.]xml$'',
                       ctx_ScopedFilepaths := Some (map epath (walk oneXML ''/r''))\<rparr>) ''c''))
     = [] \<and>
   Incidents (fst (evalFile oneXML rootOnly
      (emptyCondition\<lparr>file_Pattern := ''^a[.]xml$'', ctx_ScopedFilepaths := None\<rparr>) ''c''))
     = [plainIncident ''/r/a.xml'']"
  by code_simp

lemma walkDirMatches_no_error:
  assumes "regexpCompile w pattern = Inr regex"
    and "\<forall>d \<in> set ds. eerr d = None"
  shows "walkDirMatches w pattern ds acc =
           (acc @ map epath (filter (\<lambda>d. go_MatchString regex (ename d)) ds), None)"
  using assms
  by (induction ds arbitrary: acc) (auto simp: matchesPattern_def)

text \<open>The response of the \<open>file\<close> capability for a list of matching files.\<close>

lemma evalFile_scoped:
  assumes "regexpCompile w (file_Pattern cond) = Inr regex"
    and "file_Pattern cond \<noteq> []"
  shows "evalFile w b (cond\<lparr>ctx_ScopedFilepaths := Some paths\<rparr>) info =
           (\<lparr>Matched = (fileIncidents w b (filter (go_MatchString regex) paths) \<noteq> []),
             Incidents = fileIncidents w b (filter (go_MatchString regex) paths),
             TemplateContext = [(''filepaths'', filter (go_MatchString regex) paths)]\<rparr>,
            None)"
  using assms by (simp add: evalFile_def scopedMatches_regex Let_def)

lemma evalFile_walk:
  assumes "regexpCompile w (file_Pattern cond) = Inr regex"
    and "file_Pattern cond \<noteq> []"
    and "\<forall>d \<in> set (walk w (Location b)). eerr d = None"
  shows "evalFile w b (cond\<lparr>ctx_ScopedFilepaths := None\<rparr>) info =
           (\<lparr>Matched =
               (fileIncidents w b
                  (map epath (filter (\<lambda>d. go_MatchString regex (ename d))
                                (walk w (Location b)))) \<noteq> []),
             Incidents =
               fileIncidents w b
                 (map epath (filter (\<lambda>d. go_MatchString regex (ename d))
                               (walk w (Location b)))),
             TemplateContext =
               [(''filepaths'',
                 map epath (filter (\<lambda>d. go_MatchString regex (ename d))
                              (walk w (Location b))))]\<rparr>,
            None)"
  using assms
  by (simp add: evalFile_def findFilesMatchingPattern_def Let_def
        walkDirMatches_no_error[where regex = regex])

text \<open>
  C10. In the \<open>file\<close> capability, with a pattern that compiles as a regular expression:
  \<^item> when the condition carries a scoped list, the response of the capability is built
    from the paths of the list that the expression matches as whole strings: they are
    its template context, and its incidents are theirs;
  \<^item> when it carries none and the walk meets no error, the response is built from the
    paths of the entries of the tree whose name the expression matches;
  \<^item> the two helper searches compute just these lists (the walk up to its first error);
  \<^item> so one pattern can select different files of one tree: there are a tree and a
    pattern for which the incidents with the tree's own paths as scoped list differ from
    the incidents without a scoped list.
\<close>

theorem file_pattern_on_path_or_on_name:
  assumes re: "regexpCompile w (file_Pattern cond) = Inr regex"
    and ne: "file_Pattern cond \<noteq> []"
  shows "evalFile w b (cond\<lparr>ctx_ScopedFilepaths := Some paths\<rparr>) info =
           (\<lparr>Matched = (fileIncidents w b (filter (go_MatchString regex) paths) \<noteq> []),
             Incidents = fileIncidents w b (filter (go_MatchString regex) paths),
             TemplateContext = [(''filepaths'', filter (go_MatchString regex) paths)]\<rparr>,
            None) \<and>
         ((\<forall>d \<in> set (walk w (Location b)). eerr d = None) \<longrightarrow>
          evalFile w b (cond\<lparr>ctx_ScopedFilepaths := None\<rparr>) info =
            (\<lparr>Matched =
                (fileIncidents w b
                   (map epath (filter (\<lambda>d. go_MatchString regex (ename d))
                                 (walk w (Location b)))) \<noteq> []),
              Incidents =
                fileIncidents w b
                  (map epath (filter (\<lambda>d. go_MatchString regex (ename d))
                                (walk w (Location b)))),
              TemplateContext =
                [(''filepaths'',
                  map epath (filter (\<lambda>d. go_MatchString regex (ename d))
                               (walk w (Location b))))]\<rparr>,
             None)) \<and>
         scopedMatches w (file_Pattern cond) paths = filter (go_MatchString regex) paths \<and>
         fst (findFilesMatchingPattern w root (file_Pattern cond)) =
           map epath (filter (\<lambda>d. go_MatchString regex (ename d))
                        (takeWhile (\<lambda>d. eerr d = None) (walk w root))) \<and>
         (\<exists>w' b' cond' info'.
            Incidents (fst (evalFile w' b'
               (cond'\<lparr>ctx_ScopedFilepaths := Some (map epath (walk w' (Location b')))\<rparr>)
               info'))
            \<noteq> Incidents (fst (evalFile w' b' (cond'\<lparr>ctx_ScopedFilepaths := None\<rparr>) info')))"
proof -
  have walk: "fst (findFilesMatchingPattern w root (file_Pattern cond)) =
           map epath (filter (\<lambda>d. go_MatchString regex (ename d))
                        (takeWhile (\<lambda>d. eerr d = None) (walk w root)))"
    using walkDirMatches_regex[OF re, of "walk w root" "[]"]
    by (simp add: findFilesMatchingPattern_def)
  let ?c = "emptyCondition\<lparr>file_Pattern := ''^a[.]xml$''\<rparr>"
  have differ: "Incidents (fst (evalFile oneXML rootOnly
           (?c\<lparr>ctx_ScopedFilepaths := Some (map epath (walk oneXML (Location rootOnly)))\<rparr>)
           ''c''))
        \<noteq> Incidents (fst (evalFile oneXML rootOnly (?c\<lparr>ctx_ScopedFilepaths := None\<rparr>) ''c''))"
    using oneXML_example by (simp add: rootOnly_def)
  show ?thesis
    using evalFile_scoped[OF re ne, of b paths info] evalFile_walk[OF re ne, of b info]
      scopedMatches_regex[OF re, of paths] walk differ
    by blast
qed

text \<open>The tree \<open>/r\<close> with the file \<open>a.xml\<close> and the anchored pattern: the name matches, the
  path does not. With the tree's own paths as scoped list the capability reports
  nothing; without a scoped list it reports \<open>/r/a.xml\<close>.\<close>

lemma oneXML_facts:
  "fileIncidents oneXML rootOnly [] = [] \<and>
   fileIncidents oneXML rootOnly [''/r/a.xml''] = [plainIncident ''/r/a.xml''] \<and>
   ename (directory ''/r'') = ''r'' \<and>
   ename (regularFile ''/r/a.xml'') = ''a.xml'' \<and>
   epath (regularFile ''/r/a.xml'') = ''/r/a.xml''"
  by code_simp

theorem file_pattern_on_path_or_on_name_witness:
  "evalFile oneXML rootOnly
     (emptyCondition\<lparr>file_Pattern := ''^a[.]xml$'',
                      ctx_ScopedFilepaths := Some [''/r'', ''/r/a.xml'']\<rparr>) ''c'' =
     (\<lparr>Matched = False, Incidents = [], TemplateContext = [(''filepaths'', [])]\<rparr>, None) \<and>
   evalFile oneXML rootOnly
     (emptyCondition\<lparr>file_Pattern := ''^a[.]xml$'', ctx_ScopedFilepaths := None\<rparr>) ''c'' =
     (\<lparr>Matched = True, Incidents = [plainIncident ''/r/a.xml''],
       TemplateContext = [(''filepaths'', [''/r/a.xml''])]\<rparr>, None) \<and>
   scopedMatches oneXML ''^a[.]xml$'' [''/r'', ''/r/a.xml''] = [] \<and>
   fst (findFilesMatchingPattern oneXML ''/r'' ''^a[.]xml$'') = [''/r/a.xml'']"
proof -
  let ?c = "emptyCondition\<lparr>file_Pattern := ''^a[.]xml$''\<rparr>"
  have p: "file_Pattern ?c = ''^a[.]xml$''"
    by (simp add: emptyCondition_def)
  have re: "regexpCompile oneXML (file_Pattern ?c) = Inr (exactRegexp ''a.xml'')"
    by (simp add: oneXML_def quietWorld_def)
  have ne: "file_Pattern ?c \<noteq> []"
    by (simp add: p)
  have loc: "Location rootOnly = ''/r''"
    by (simp add: rootOnly_def)
  have w: "walk oneXML ''/r'' = [directory ''/r'', regularFile ''/r/a.xml'']"
    by (simp add: oneXML_def quietWorld_def)
  have ok: "\<forall>d \<in> set (walk oneXML (Location rootOnly)). eerr d = None"
    by (simp add: loc w directory_def regularFile_def)
  have m: "go_MatchString (exactRegexp ''a.xml'') = (\<lambda>s. s = ''a.xml'')"
    by (simp add: exactRegexp_def)
  from file_pattern_on_path_or_on_name[OF re ne,
         of rootOnly "[''/r'', ''/r/a.xml'']" "''c''" "''/r''"] ok
  show ?thesis
    unfolding p loc w m
    by (simp add: oneXML_facts)
qed

section \<open>Where the code departs from its specification\<close>

subsection \<open>Engine selection\<close>

lemma selectedEngine_Backtracking:
  "selectedEngine pattern = Backtracking \<longleftrightarrow> pattern \<in> set LOOK_SYNTAX"
  by (simp add: selectedEngine_def)

lemma compileRegex_deterministic:
  "pattern \<notin> set LOOK_SYNTAX \<Longrightarrow>
     compileRegex g l pattern =
       (\<lparr>goRegex = compiled (g pattern), lookRegex = None\<rparr>, failure (g pattern))"
  by (simp add: compileRegex_def Let_def)

lemma compileRegex_backtracking:
  "pattern \<in> set LOOK_SYNTAX \<Longrightarrow>
     compileRegex g l pattern =
       (\<lparr>goRegex = None, lookRegex = compiled (l pattern)\<rparr>, failure (l pattern))"
  by (simp add: compileRegex_def Let_def)

text \<open>
  C1. The pattern \<open>(?=a)b\<close> begins with the lookahead prefix \<open>(?=\<close>, yet \<open>compileRegex\<close>
  hands it to the deterministic engine's compiler, whatever the two compilers are: the
  selector never holds a backtracking expression for it, and the error returned is the
  deterministic compiler's.
\<close>

theorem compileRegex_lookahead_goes_to_deterministic:
  "startsWithLookaround ''(?=a)b'' \<and>
   selectedEngine ''(?=a)b'' = Deterministic \<and>
   compileRegex g l ''(?=a)b'' =
     (\<lparr>goRegex = compiled (g ''(?=a)b''), lookRegex = None\<rparr>, failure (g ''(?=a)b''))"
proof -
  have "startsWithLookaround ''(?=a)b'' \<and> selectedEngine ''(?=a)b'' = Deterministic"
    by code_simp
  moreover have "''(?=a)b'' \<notin> set LOOK_SYNTAX"
    by (simp add: LOOK_SYNTAX_def)
  ultimately show ?thesis
    by (simp add: compileRegex_deterministic)
qed

subsection \<open>Matched without an incident\<close>

text \<open>
  C2. The \<open>xml\<close> capability over one document \<open>/r/lib/a.xml\<close> with one matching node,
  when the included paths are \<open>src\<close> only: the response has \<open>Matched\<close> true and no
  incident.
\<close>

theorem xml_matched_without_incident:
  "fst (Evaluate libXML srcOnly [] emptyState ''xml'' ''c'') =
     (\<lparr>Matched = True, Incidents = [], TemplateContext = []\<rparr>, None)"
  by code_simp

text \<open>
  Where the invariant does hold: in the \<open>file\<close> and \<open>hasTags\<close> cases, and in the
  \<open>filecontent\<close> case when it returns no error, \<open>Matched\<close> says that there is an
  incident. In the \<open>xml\<close> case an incident implies \<open>Matched\<close>, not the converse.
\<close>

lemma evalFile_matched:
  "Matched (fst (evalFile w b cond info)) = (Incidents (fst (evalFile w b cond info)) \<noteq> [])"
  by (auto simp: evalFile_def emptyResponse_def Let_def split: option.splits prod.splits)

lemma evalHasTags_matched:
  "Matched (fst (evalHasTags b cond)) = (Incidents (fst (evalHasTags b cond)) \<noteq> [])"
  by (simp add: evalHasTags_def emptyResponse_def Let_def)

lemma filecontentIncidents_matched:
  "filecontentIncidents w filePattern ms r = (r', None) \<Longrightarrow> \<not> Matched r \<Longrightarrow>
     Matched r' = (Incidents r' \<noteq> [])"
  by (induction ms arbitrary: r) (auto split: sum.splits if_splits)

lemma evalFilecontent_matched:
  "evalFilecontent w b sched cond info = (r, None) \<Longrightarrow> Matched r = (Incidents r \<noteq> [])"
  unfolding evalFilecontent_def
  by (auto split: if_splits sum.splits simp: emptyResponse_def
           dest!: filecontentIncidents_matched)

lemma xmlNodes_Matched:
  "Matched (fst (xmlNodes w b file nodes (r, st))) = Matched r"
  by (induction nodes arbitrary: r st) (auto simp: Let_def split: prod.splits)

lemma xmlFiles_incident_matched:
  "Incidents r \<noteq> [] \<longrightarrow> Matched r \<Longrightarrow>
     Incidents (fst (xmlFiles w b query fs (r, st))) \<noteq> [] \<longrightarrow>
     Matched (fst (xmlFiles w b query fs (r, st)))"
proof (induction fs arbitrary: r st)
  case Nil
  then show ?case by simp
next
  case (Cons f fs)
  show ?case
  proof (cases "queryXMLFile w f query")
    case (Inl e)
    then show ?thesis using Cons by simp
  next
    case (Inr nodes)
    show ?thesis
    proof (cases "nodes = []")
      case True
      then show ?thesis using Cons Inr by simp
    next
      case False
      obtain r' st' where n: "xmlNodes w b f nodes (r\<lparr>Matched := True\<rparr>, st) = (r', st')"
        by (cases "xmlNodes w b f nodes (r\<lparr>Matched := True\<rparr>, st)")
      have "Matched r'"
        using xmlNodes_Matched[of w b f nodes "r\<lparr>Matched := True\<rparr>" st] n by simp
      then have "Incidents r' \<noteq> [] \<longrightarrow> Matched r'" by simp
      from Cons.IH[OF this, of st'] show ?thesis
        using Inr False n by simp
    qed
  qed
qed

lemma evalXML_incident_matched:
  "Incidents (fst (fst (evalXML w b st cond))) \<noteq> [] \<Longrightarrow> Matched (fst (fst (evalXML w b st cond)))"
proof -
  have empty: "Incidents emptyResponse \<noteq> [] \<longrightarrow> Matched emptyResponse"
    by (simp add: emptyResponse_def)
  assume "Incidents (fst (fst (evalXML w b st cond))) \<noteq> []"
  then show ?thesis
    using xmlFiles_incident_matched[OF empty]
    unfolding evalXML_def
    by (auto split: prod.splits option.splits sum.splits simp: emptyResponse_def)
       (metis fst_conv)+
qed

subsection \<open>The candidate documents of the json capability\<close>

text \<open>
  C3. With no scoped list and the condition's JSON file paths \<open>[/r/a.json]\<close>, the list
  handed to \<open>GetFiles\<close> is empty unless the condition's XML file paths are not; where an
  empty list makes \<open>GetFiles\<close> search the tree, the document \<open>/r/b.json\<close> is reported too.
\<close>

theorem json_filepaths_ignored:
  "jsonFilePaths None [] [''/r/a.json''] = [] \<and>
   jsonFilePaths None [''pom.xml''] [''/r/a.json''] = [''/r/a.json''] \<and>
   map FileURI (Incidents (fst (fst (evalJSON twoJSON rootOnly emptyState
      (emptyCondition\<lparr>json_XPath := ''//k'', json_Filepaths := [''/r/a.json'']\<rparr>) ''c'')))) =
     [uri_File ''/r/a.json'', uri_File ''/r/b.json'']"
  by code_simp

subsection \<open>The candidate documents of the xmlPublicID capability\<close>

text \<open>
  C4. With the scoped list \<open>[/src/app/pom.xml]\<close> and the condition's file paths
  \<open>[pom.xml]\<close>, the \<open>xml\<close> capability keeps the scoped path (its base name is the
  condition path), and the \<open>xmlPublicID\<close> capability keeps nothing and returns no
  matches.
\<close>

theorem publicID_drops_base_name_match:
  "xmlFilePaths (Some [''/src/app/pom.xml'']) [''pom.xml''] = Some [''/src/app/pom.xml''] \<and>
   xmlPublicIDFilePaths (Some [''/src/app/pom.xml'']) [''pom.xml''] = None"
  by code_simp

subsection \<open>Inclusion by joined segments\<close>

lemma isFileIncluded_no_scopes: "includedPaths b = [] \<Longrightarrow> isFileIncluded w b absolutePath"
  by (simp add: isFileIncluded_def)

lemma prefix_concat: "prefix xs ys \<Longrightarrow> hasPrefix (concat ys) (concat xs)"
  by (auto simp: prefix_def hasPrefix_def)

text \<open>A segment-wise prefix is accepted by the code's test.\<close>

lemma segmentwise_included:
  "scopeIncludesSegmentwise w b absolutePath path \<Longrightarrow> scopeIncludes w b absolutePath path"
  unfolding scopeIncludesSegmentwise_def scopeIncludes_def Let_def join_nil
  by (auto simp: prefix_concat prefix_length_le)

text \<open>
  C5. With the root \<open>/r\<close> and the single scope \<open>a\<close>, a directory, the file
  \<open>/r/ab/f.txt\<close> of the sibling directory \<open>ab\<close> is included, although the scope's segments
  \<open>r, a\<close> are not a segment-wise prefix of the segments \<open>r, ab\<close> of the file's directory.
\<close>

theorem sibling_directory_is_included:
  "isFileIncluded (quietWorld\<lparr>isDir := (\<lambda>p. p = ''/r/a'')\<rparr>)
     \<lparr>Location = ''/r'', tags = [], includedPaths = [''a'']\<rparr> ''/r/ab/f.txt'' \<and>
   \<not> scopeIncludesSegmentwise (quietWorld\<lparr>isDir := (\<lambda>p. p = ''/r/a'')\<rparr>)
     \<lparr>Location = ''/r'', tags = [], includedPaths = [''a'']\<rparr> ''/r/ab/f.txt'' ''a'' \<and>
   getSegments ''/r/a'' = [''r'', ''a''] \<and>
   getSegments (Dir ''/r/ab/f.txt'') = [''r'', ''ab'']"
  by code_simp

end
